theory Spec2Isabelle
  imports Complex_Main "HOL-Library.Word"
begin

unbundle bit_operations_syntax

section \<open>GLFM Android platform layer: data model\<close>

text \<open>
  The development embeds \<^verbatim>\<open>src/glfm_platform_android.c\<close>. The singleton
  \<^verbatim>\<open>GLFMPlatformData\<close> is a record. Everything outside the file (EGL, JNI, the NDK
  sensor and input API, the embedder's callbacks) is modelled by lists:
  \<^item> \<open>env\<close>: the answers of the outside world, in the order in which the code asks for
    them. Every modelled external call that returns something the code looks at takes the
    next answer; an exhausted list answers 0 (a null handle, \<open>EGL_FALSE\<close>, no exception).
    The one \<open>float\<close> the code asks for comes from a list of its own, \<open>envFloat\<close>.
  \<^item> \<open>calls\<close>: the log of the embedder callbacks that were invoked and of the sensor
    subscriptions that were made, oldest first. A callback is logged and returns: what the
    embedder does inside it, such as calling back into GLFM, is not part of a run.
  A function pointer of the callback table is a \<open>bool\<close>: whether a callback is registered.
  Handles (\<open>EGLDisplay\<close>, \<open>EGLContext\<close>, \<open>jobject\<close>, ...) are integers, 0 being the null
  handle (\<open>EGL_NO_DISPLAY\<close>, \<open>EGL_NO_SURFACE\<close>, \<open>EGL_NO_CONTEXT\<close>, \<open>NULL\<close>).
  \<open>int32_t\<close> values are integers; where the code computes with window coordinates the
  results are wrapped to 32 bits (\<open>int32\<close>). A \<open>double\<close> is the real number it denotes, and
  a product or quotient of doubles is rounded as IEEE 754 prescribes (\<open>roundToDouble\<close>).
\<close>

datatype GLFMRenderingAPI =
  GLFMRenderingAPIOpenGLES2 | GLFMRenderingAPIOpenGLES3
  | GLFMRenderingAPIOpenGLES31 | GLFMRenderingAPIOpenGLES32

text \<open>The enumerators in declaration order, for the \<open>>=\<close> tests on \<open>preferredAPI\<close>.\<close>

fun apiRank :: "GLFMRenderingAPI \<Rightarrow> nat" where
  "apiRank GLFMRenderingAPIOpenGLES2 = 0"
| "apiRank GLFMRenderingAPIOpenGLES3 = 1"
| "apiRank GLFMRenderingAPIOpenGLES31 = 2"
| "apiRank GLFMRenderingAPIOpenGLES32 = 3"

datatype GLFMDepthFormat = GLFMDepthFormatNone | GLFMDepthFormat16 | GLFMDepthFormat24

datatype GLFMStencilFormat = GLFMStencilFormatNone | GLFMStencilFormat8

datatype GLFMMultisample = GLFMMultisampleNone | GLFMMultisample4X

datatype GLFMInterfaceOrientation =
  GLFMInterfaceOrientationUnknown | GLFMInterfaceOrientationPortrait
  | GLFMInterfaceOrientationPortraitUpsideDown
  | GLFMInterfaceOrientationLandscapeLeft | GLFMInterfaceOrientationLandscapeRight

datatype GLFMTouchPhase =
  GLFMTouchPhaseBegan | GLFMTouchPhaseMoved | GLFMTouchPhaseEnded | GLFMTouchPhaseCancelled

datatype GLFMKeyAction = GLFMKeyActionPressed | GLFMKeyActionRepeated | GLFMKeyActionReleased

text \<open>
  \<open>GLFMKey\<close>: the named keys the Android layer produces, \<open>GLFMKeyCode c\<close> for the digits and
  letters (their ASCII code \<open>c\<close>), and \<open>GLFMKeyNone\<close> for \<open>(GLFMKey)0\<close>.
\<close>

datatype GLFMKey =
  GLFMKeyNone | GLFMKeyLeft | GLFMKeyRight | GLFMKeyUp | GLFMKeyDown | GLFMKeyEnter
  | GLFMKeyTab | GLFMKeySpace | GLFMKeyNavBack | GLFMKeyNavMenu | GLFMKeyCode int

record ARect =
  left :: int
  top :: int
  right :: int
  bottom :: int

text \<open>A Java \<open>float\<close> as the code tests it: \<open>NaN <= 0\<close> is false.\<close>

datatype jfloat = JFloat real | JNaN

fun jfloat_le_zero :: "jfloat \<Rightarrow> bool" where
  "jfloat_le_zero (JFloat r) = (r \<le> 0)"
| "jfloat_le_zero JNaN = False"

datatype call =
  SurfaceCreatedCall int int
  | SurfaceDestroyedCall
  | RenderCall
  | SurfaceRefreshCall
  | SurfaceResizedCall int int
  | FocusCall bool
  | LowMemoryCall
  | OrientationChangedCall GLFMInterfaceOrientation
  | KeyboardVisibilityChangedCall bool int int int int
  | KeyCall GLFMKey GLFMKeyAction
  | CharCall "8 word list"
  | TouchCall int GLFMTouchPhase real real
  | EnableSensorCall nat
  | SetEventRateCall nat int
  | DisableSensorCall nat

record GLFMDisplay =
  preferredAPI :: GLFMRenderingAPI
  depthFormat :: GLFMDepthFormat
  stencilFormat :: GLFMStencilFormat
  multisample :: GLFMMultisample
  surfaceCreatedFunc :: bool
  surfaceDestroyedFunc :: bool
  renderFunc :: bool
  surfaceRefreshFunc :: bool
  surfaceResizedFunc :: bool
  focusFunc :: bool
  lowMemoryFunc :: bool
  orientationChangedFunc :: bool
  keyboardVisibilityChangedFunc :: bool
  keyFunc :: bool
  charFunc :: bool
  touchFunc :: bool
  sensorFuncs :: "bool list"

text \<open>
  \<open>GLFMPlatformData\<close>, with the two rectangles of \<open>struct android_app\<close> the code uses, and
  the lists of the model. \<open>display\<close> is never \<open>NULL\<close> when a handler runs
  (\<open>android_main\<close> allocates it before its loop), so the source's null tests on it pass.
\<close>

record GLFMPlatformData =
  display :: GLFMDisplay
  contentRect :: ARect
  pendingContentRect :: ARect
  multitouchEnabled :: bool
  keyboardFrame :: ARect
  keyboardVisible :: bool
  animating :: bool
  hasInited :: bool
  refreshRequested :: bool
  swapCalled :: bool
  eglDisplay :: int
  eglSurface :: int
  eglConfig :: int
  eglContext :: int
  eglContextCurrent :: bool
  width :: int
  height :: int
  scale :: real
  resizeEventWaitFrames :: int
  renderingAPI :: GLFMRenderingAPI
  sensorEventQueue :: int
  sensorEventValid :: "bool list"
  deviceSensorEnabled :: "bool list"
  orientation :: GLFMInterfaceOrientation
  calls :: "call list"
  env :: "int list"
  envFloat :: "jfloat list"

definition MAX_SIMULTANEOUS_TOUCHES :: int where
  "MAX_SIMULTANEOUS_TOUCHES = 5"

definition SENSOR_UPDATE_INTERVAL_MICROS :: int where
  "SENSOR_UPDATE_INTERVAL_MICROS = 10000"

definition RESIZE_EVENT_MAX_WAIT_FRAMES :: int where
  "RESIZE_EVENT_MAX_WAIT_FRAMES = 5"

definition GLFM_NUM_SENSORS :: nat where
  "GLFM_NUM_SENSORS = 4"

text \<open>Values of \<^verbatim>\<open>EGL/egl.h\<close>.\<close>

definition EGL_NO_DISPLAY :: int where "EGL_NO_DISPLAY = 0"
definition EGL_NO_SURFACE :: int where "EGL_NO_SURFACE = 0"
definition EGL_NO_CONTEXT :: int where "EGL_NO_CONTEXT = 0"
definition EGL_BAD_CONTEXT :: int where "EGL_BAD_CONTEXT = 0x3006"
definition EGL_BAD_SURFACE :: int where "EGL_BAD_SURFACE = 0x300D"
definition EGL_CONTEXT_LOST :: int where "EGL_CONTEXT_LOST = 0x300E"

subsection \<open>The outside world\<close>

definition envNext :: "GLFMPlatformData \<Rightarrow> int \<times> GLFMPlatformData" where
  "envNext w = (case env w of [] \<Rightarrow> (0, w) | v # vs \<Rightarrow> (v, w\<lparr>env := vs\<rparr>))"

definition envNextFloat :: "GLFMPlatformData \<Rightarrow> jfloat \<times> GLFMPlatformData" where
  "envNextFloat w = (case envFloat w of [] \<Rightarrow> (JFloat 0, w) | v # vs \<Rightarrow> (v, w\<lparr>envFloat := vs\<rparr>))"

definition invoke :: "call \<Rightarrow> GLFMPlatformData \<Rightarrow> GLFMPlatformData" where
  "invoke c w = w\<lparr>calls := calls w @ [c]\<rparr>"

text \<open>\<open>if (f) f(...)\<close>: a callback is invoked when it is registered.\<close>

definition invokeIf :: "bool \<Rightarrow> call \<Rightarrow> GLFMPlatformData \<Rightarrow> GLFMPlatformData" where
  "invokeIf registered c w = (if registered then invoke c w else w)"

section \<open>Orientation and surface size\<close>

text \<open>
  \<open>glfmGetInterfaceOrientation\<close>: three JNI object lookups, each followed by
  \<open>!obj || _glfmWasJavaExceptionThrown()\<close> (the exception is only asked about when the
  object is not null), then \<open>getRotation\<close> and a last exception test.
\<close>

definition glfmGetInterfaceOrientation ::
  "GLFMPlatformData \<Rightarrow> GLFMInterfaceOrientation \<times> GLFMPlatformData" where
  "glfmGetInterfaceOrientation w0 =
    (let (window, w1) = envNext w0;
         (exc1, w2) = (if window = 0 then (1, w1) else envNext w1)
     in if exc1 \<noteq> 0 then (GLFMInterfaceOrientationUnknown, w2) else
     let (windowManager, w3) = envNext w2;
         (exc2, w4) = (if windowManager = 0 then (1, w3) else envNext w3)
     in if exc2 \<noteq> 0 then (GLFMInterfaceOrientationUnknown, w4) else
     let (windowDisplay, w5) = envNext w4;
         (exc3, w6) = (if windowDisplay = 0 then (1, w5) else envNext w5)
     in if exc3 \<noteq> 0 then (GLFMInterfaceOrientationUnknown, w6) else
     let (rotation, w7) = envNext w6;
         (exc4, w8) = envNext w7
     in if exc4 \<noteq> 0 then (GLFMInterfaceOrientationUnknown, w8)
        else if rotation = 0 then (GLFMInterfaceOrientationPortrait, w8)
        else if rotation = 1 then (GLFMInterfaceOrientationLandscapeRight, w8)
        else if rotation = 2 then (GLFMInterfaceOrientationPortraitUpsideDown, w8)
        else if rotation = 3 then (GLFMInterfaceOrientationLandscapeLeft, w8)
        else (GLFMInterfaceOrientationUnknown, w8))"

definition glfmReportOrientationChangeIfNeeded :: "GLFMPlatformData \<Rightarrow> GLFMPlatformData" where
  "glfmReportOrientationChangeIfNeeded w0 =
    (let (orient, w1) = glfmGetInterfaceOrientation w0
     in if orientation w1 \<noteq> orient
        then invokeIf (orientationChangedFunc (display w1)) (OrientationChangedCall orient)
               (w1\<lparr>orientation := orient, refreshRequested := True\<rparr>)
        else w1)"

text \<open>
  \<open>_glfmUpdateSurfaceSizeIfNeeded\<close>: the two \<open>eglQuerySurface\<close> calls answer the live
  width and height of the surface.
\<close>

definition glfmUpdateSurfaceSizeIfNeeded :: "GLFMPlatformData \<Rightarrow> bool \<Rightarrow> GLFMPlatformData" where
  "glfmUpdateSurfaceSizeIfNeeded w0 force =
    (let (width', w1) = envNext w0;
         (height', w2) = envNext w1
     in if width' \<noteq> width w2 \<or> height' \<noteq> height w2 then
          (if force \<or> resizeEventWaitFrames w2 \<le> 0 then
             (let w3 = w2\<lparr>resizeEventWaitFrames := RESIZE_EVENT_MAX_WAIT_FRAMES,
                          refreshRequested := True, width := width', height := height'\<rparr>;
                  w4 = glfmReportOrientationChangeIfNeeded w3
              in invokeIf (surfaceResizedFunc (display w4)) (SurfaceResizedCall width' height') w4)
           else w2\<lparr>resizeEventWaitFrames := resizeEventWaitFrames w2 - 1\<rparr>)
        else w2)"

section \<open>Drawing a frame\<close>

definition glfmDrawFrame :: "GLFMPlatformData \<Rightarrow> GLFMPlatformData" where
  "glfmDrawFrame w0 =
    (if \<not> eglContextCurrent w0 then w0 else
     let w1 = glfmUpdateSurfaceSizeIfNeeded w0 False;
         w2 = (if refreshRequested w1
               then invokeIf (surfaceRefreshFunc (display w1)) SurfaceRefreshCall
                      (w1\<lparr>refreshRequested := False\<rparr>)
               else w1)
     in invokeIf (renderFunc (display w2)) RenderCall w2)"

section \<open>EGL context and surface\<close>

text \<open>
  An EGL query that writes its result through a pointer (\<open>eglQueryContext\<close>,
  \<open>eglQuerySurface\<close> on a field): the world answers whether it succeeded and, if so, the
  value; on failure the variable keeps its value \<open>cur\<close>.
\<close>

definition eglQuery :: "int \<Rightarrow> GLFMPlatformData \<Rightarrow> int \<times> GLFMPlatformData" where
  "eglQuery cur w0 =
    (let (ok, w1) = envNext w0 in if ok \<noteq> 0 then envNext w1 else (cur, w1))"

text \<open>
  One \<open>eglCreateContext\<close> attempt of \<open>_glfmEGLContextInit\<close>: it sets \<open>majorVersion\<close>,
  \<open>minorVersion\<close>, stores the answered handle and sets \<open>created\<close>.
\<close>

definition eglCreateContextAttempt ::
  "int \<Rightarrow> int \<Rightarrow> GLFMPlatformData \<Rightarrow> bool \<times> int \<times> int \<times> GLFMPlatformData" where
  "eglCreateContextAttempt major minor w0 =
    (let (ctx, w1) = envNext w0
     in (ctx \<noteq> EGL_NO_CONTEXT, major, minor, w1\<lparr>eglContext := ctx\<rparr>))"

text \<open>
  The attempts are made in turn on \<open>(created, majorVersion, minorVersion)\<close> and the state:
  an attempt is made when its API level is wanted and no earlier attempt created a context
  (the source's first attempt does not test \<open>created\<close>, which is false there).
\<close>

definition contextAttemptIf ::
  "bool \<Rightarrow> int \<Rightarrow> int \<Rightarrow> bool \<times> int \<times> int \<times> GLFMPlatformData
     \<Rightarrow> bool \<times> int \<times> int \<times> GLFMPlatformData" where
  "contextAttemptIf wanted major minor st =
    (if \<not> fst st \<and> wanted then eglCreateContextAttempt major minor (snd (snd (snd st)))
     else st)"

text \<open>The body of \<open>if (platformData->eglContext == EGL_NO_CONTEXT)\<close>; it answers \<open>created\<close>.\<close>

definition glfmEGLContextCreate :: "GLFMPlatformData \<Rightarrow> bool \<times> GLFMPlatformData" where
  "glfmEGLContextCreate w0 =
    (let api = apiRank (preferredAPI (display w0));
         (created, major, minor, w4) =
           contextAttemptIf True 2 0
             (contextAttemptIf (api \<ge> apiRank GLFMRenderingAPIOpenGLES3) 3 0
               (contextAttemptIf (api \<ge> apiRank GLFMRenderingAPIOpenGLES31) 3 1
                 (contextAttemptIf (api \<ge> apiRank GLFMRenderingAPIOpenGLES32) 3 2
                   (False, 0, 0, w0))))
     in if created then
          (let (major', w5) = eglQuery major w4;
               (minor', w6) = (if major' \<ge> 3 then eglQuery minor w5 else (minor, w5))
           in (True, w6\<lparr>renderingAPI :=
                 (if major' = 3 \<and> minor' = 2 then GLFMRenderingAPIOpenGLES32
                  else if major' = 3 \<and> minor' = 1 then GLFMRenderingAPIOpenGLES31
                  else if major' = 3 then GLFMRenderingAPIOpenGLES3
                  else GLFMRenderingAPIOpenGLES2)\<rparr>))
        else (False, w4))"

definition glfmEGLContextInit :: "GLFMPlatformData \<Rightarrow> bool \<times> GLFMPlatformData" where
  "glfmEGLContextInit w0 =
    (let (created, w7) =
           (if eglContext w0 = EGL_NO_CONTEXT then glfmEGLContextCreate w0 else (False, w0));
         (madeCurrent, w8) = envNext w7
     in if madeCurrent = 0 then (False, w8\<lparr>eglContextCurrent := False\<rparr>)
        else (True,
              (let w9 = w8\<lparr>eglContextCurrent := True\<rparr>
               in if created
                  then invokeIf (surfaceCreatedFunc (display w9))
                         (SurfaceCreatedCall (width w9) (height w9)) w9
                  else w9)))"

definition glfmEGLContextDisable :: "GLFMPlatformData \<Rightarrow> GLFMPlatformData" where
  "glfmEGLContextDisable w = w\<lparr>eglContextCurrent := False\<rparr>"

text \<open>\<open>eglCreateWindowSurface\<close> answers the surface; \<open>eglSurfaceAttrib\<close>'s result is not read.\<close>

definition glfmEGLSurfaceInit :: "GLFMPlatformData \<Rightarrow> GLFMPlatformData" where
  "glfmEGLSurfaceInit w0 =
    (if eglSurface w0 = EGL_NO_SURFACE
     then (let (surface, w1) = envNext w0 in w1\<lparr>eglSurface := surface\<rparr>)
     else w0)"

text \<open>
  The \<open>while (true)\<close> of \<open>_glfmEGLInit\<close>: \<open>eglChooseConfig\<close> answers \<open>numConfigs\<close> and, when
  it is not zero, the configuration. The colour and stencil bits only travel to EGL.
\<close>

function chooseConfigLoop :: "int \<Rightarrow> int \<Rightarrow> GLFMPlatformData \<Rightarrow> bool \<times> GLFMPlatformData" where
  "chooseConfigLoop samples depthBits w0 =
    (if fst (envNext w0) \<noteq> 0
     then (True, (snd (envNext (snd (envNext w0))))
                   \<lparr>eglConfig := fst (envNext (snd (envNext w0)))\<rparr>)
     else if samples > 0 then chooseConfigLoop (samples - 2) depthBits (snd (envNext w0))
     else if depthBits > 8 then chooseConfigLoop samples (depthBits - 8) (snd (envNext w0))
     else (False, snd (envNext w0)))"
  by pat_completeness auto
termination
  by (relation "measure (\<lambda>(samples, depthBits, w). nat samples + nat depthBits)") auto

declare chooseConfigLoop.simps [simp del]

text \<open>
  Modelled from the spec: \<open>_glfmReportSurfaceError\<close> is defined in \<^verbatim>\<open>glfm_platform.h\<close>,
  which is not among the sources; the spec says that a configuration failure is logged and
  leaves the surface uninitialised, so the model gives it no effect.
\<close>

definition glfmReportSurfaceError :: "GLFMPlatformData \<Rightarrow> GLFMPlatformData" where
  "glfmReportSurfaceError w = w"

text \<open>The \<open>switch\<close> statements of \<open>_glfmEGLInit\<close> that set \<open>samples\<close> and \<open>depthBits\<close>.\<close>

definition eglConfigBits :: "GLFMDisplay \<Rightarrow> int \<times> int" where
  "eglConfigBits d =
    (let depthBits0 = (case depthFormat d of
                         GLFMDepthFormatNone \<Rightarrow> 0
                       | GLFMDepthFormat16 \<Rightarrow> 16
                       | GLFMDepthFormat24 \<Rightarrow> 24);
         depthBits = (case stencilFormat d of
                        GLFMStencilFormatNone \<Rightarrow> depthBits0
                      | GLFMStencilFormat8 \<Rightarrow> (if depthBits0 > 0 then 24 else depthBits0));
         samples = (if multisample d = GLFMMultisample4X then 4 else 0)
     in (samples, depthBits))"

text \<open>The two \<open>eglQuerySurface\<close> calls of \<open>_glfmEGLInit\<close>, into \<open>width\<close> and \<open>height\<close>.\<close>

definition eglQuerySurfaceSize :: "GLFMPlatformData \<Rightarrow> GLFMPlatformData" where
  "eglQuerySurfaceSize w0 =
    (let (width', w1) = eglQuery (width w0) w0;
         (height', w2) = eglQuery (height w1) (w1\<lparr>width := width'\<rparr>)
     in w2\<lparr>height := height'\<rparr>)"

definition glfmEGLInit :: "GLFMPlatformData \<Rightarrow> bool \<times> GLFMPlatformData" where
  "glfmEGLInit w0 =
    (if eglDisplay w0 \<noteq> EGL_NO_DISPLAY then glfmEGLContextInit (glfmEGLSurfaceInit w0) else
     let (samples, depthBits) = eglConfigBits (display w0);
         (dpy, w1) = envNext w0;
         (found, w2) = chooseConfigLoop samples depthBits (w1\<lparr>eglDisplay := dpy\<rparr>)
     in if \<not> found
        then (False, (glfmReportSurfaceError w2)\<lparr>eglDisplay := EGL_NO_DISPLAY\<rparr>)
        else glfmEGLContextInit (eglQuerySurfaceSize (glfmEGLSurfaceInit w2)))"

definition glfmEGLSurfaceDestroy :: "GLFMPlatformData \<Rightarrow> GLFMPlatformData" where
  "glfmEGLSurfaceDestroy w0 =
    glfmEGLContextDisable
      (if eglSurface w0 \<noteq> EGL_NO_SURFACE then w0\<lparr>eglSurface := EGL_NO_SURFACE\<rparr> else w0)"

definition glfmEGLDestroy :: "GLFMPlatformData \<Rightarrow> GLFMPlatformData" where
  "glfmEGLDestroy w0 =
    (let w1 = (if eglDisplay w0 \<noteq> EGL_NO_DISPLAY \<and> eglContext w0 \<noteq> EGL_NO_CONTEXT
               then invokeIf (surfaceDestroyedFunc (display w0)) SurfaceDestroyedCall w0
               else w0)
     in w1\<lparr>eglDisplay := EGL_NO_DISPLAY, eglContext := EGL_NO_CONTEXT,
            eglSurface := EGL_NO_SURFACE, eglContextCurrent := False\<rparr>)"

text \<open>\<open>eglGetError\<close> answers the error code.\<close>

definition glfmEGLCheckError :: "GLFMPlatformData \<Rightarrow> GLFMPlatformData" where
  "glfmEGLCheckError w0 =
    (let (err, w1) = envNext w0
     in if err = EGL_BAD_SURFACE then glfmEGLSurfaceInit (glfmEGLSurfaceDestroy w1)
        else if err = EGL_CONTEXT_LOST \<or> err = EGL_BAD_CONTEXT then
          snd (glfmEGLContextInit
            (if eglContext w1 \<noteq> EGL_NO_CONTEXT
             then invokeIf (surfaceDestroyedFunc (display w1)) SurfaceDestroyedCall
                    (w1\<lparr>eglContext := EGL_NO_CONTEXT, eglContextCurrent := False\<rparr>)
             else w1))
        else snd (glfmEGLInit (glfmEGLDestroy w1)))"

section \<open>Sensors and the animating flag\<close>

text \<open>
  One round of the \<open>for\<close> loop of \<open>_glfmSetAllRequestedSensorsEnabled\<close>
  (\<open>sensorRound\<close>), with the creation of the event queue (\<open>sensorQueue\<close>) and the final
  \<open>if\<close>/\<open>else if\<close> that subscribes or unsubscribes (\<open>sensorSwitch\<close>) on their own. The
  world answers the device sensor (\<open>_glfmGetDeviceSensor\<close>), the event queue when one has to
  be created, the status of enabling or disabling, and the sensor's minimum delay. The
  arrays have \<open>GLFM_NUM_SENSORS\<close> entries.
\<close>

definition sensorSwitch :: "bool \<Rightarrow> bool \<Rightarrow> GLFMPlatformData \<Rightarrow> nat \<Rightarrow> GLFMPlatformData" where
  "sensorSwitch shouldEnable isEnabled w3 i =
    (if shouldEnable \<and> \<not> isEnabled then
       (let (status, w4) = envNext (invoke (EnableSensorCall i) w3)
        in if status = 0 then
             (let (minDelay, w5) = envNext w4;
                  w6 = (if minDelay > 0
                        then invoke (SetEventRateCall i
                               (if SENSOR_UPDATE_INTERVAL_MICROS < minDelay then minDelay
                                else SENSOR_UPDATE_INTERVAL_MICROS)) w5
                        else w5)
              in w6\<lparr>deviceSensorEnabled := (deviceSensorEnabled w6)[i := True]\<rparr>)
           else w4)
     else if \<not> shouldEnable \<and> isEnabled then
       (let (status, w4) = envNext (invoke (DisableSensorCall i) w3)
        in if status = 0
           then w4\<lparr>deviceSensorEnabled := (deviceSensorEnabled w4)[i := False]\<rparr>
           else w4)
     else w3)"

definition sensorQueue :: "GLFMPlatformData \<Rightarrow> GLFMPlatformData" where
  "sensorQueue w2 =
    (if sensorEventQueue w2 = 0
     then (let (queue, w') = envNext w2 in w'\<lparr>sensorEventQueue := queue\<rparr>)
     else w2)"

definition sensorRound :: "bool \<Rightarrow> GLFMPlatformData \<Rightarrow> nat \<Rightarrow> GLFMPlatformData" where
  "sensorRound enabledGlobally w0 i =
    (let (deviceSensor, w1) = envNext w0;
         isNeededEnabled = sensorFuncs (display w1) ! i;
         shouldEnable = (enabledGlobally \<and> isNeededEnabled);
         isEnabled = deviceSensorEnabled w1 ! i;
         w2 = (if \<not> shouldEnable
               then w1\<lparr>sensorEventValid := (sensorEventValid w1)[i := False]\<rparr> else w1)
     in if isEnabled = shouldEnable \<or> deviceSensor = 0 then w2 else
        let w3 = sensorQueue w2
        in if sensorEventQueue w3 = 0 then w3 else sensorSwitch shouldEnable isEnabled w3 i)"

definition glfmSetAllRequestedSensorsEnabled ::
  "GLFMPlatformData \<Rightarrow> bool \<Rightarrow> GLFMPlatformData" where
  "glfmSetAllRequestedSensorsEnabled w enabledGlobally =
    foldl (sensorRound enabledGlobally) w [0..<GLFM_NUM_SENSORS]"

definition glfmSetAnimating :: "GLFMPlatformData \<Rightarrow> bool \<Rightarrow> GLFMPlatformData" where
  "glfmSetAnimating w0 animating' =
    (if animating w0 \<noteq> animating' then
       (let w1 = w0\<lparr>animating := animating', refreshRequested := True\<rparr>;
            w2 = (if \<not> hasInited w1 \<and> animating' then w1\<lparr>hasInited := True\<rparr>
                  else invokeIf (focusFunc (display w1)) (FocusCall animating') w1)
        in glfmSetAllRequestedSensorsEnabled w2 animating')
     else w0)"

section \<open>Keyboard visibility\<close>

definition ARectsEqual :: "ARect \<Rightarrow> ARect \<Rightarrow> bool" where
  "ARectsEqual r1 r2 =
    (left r1 = left r2 \<and> top r1 = top r2 \<and> right r1 = right r2 \<and> bottom r1 = bottom r2)"

text \<open>
  \<open>_glfmGetDecorView\<close> answers the decor view or \<open>NULL\<close>. Each \<open>ExceptionCheck\<close> and each
  \<open>_glfmWasJavaExceptionThrown()\<close> is an answer of its own (not 0: an exception is pending).
\<close>

definition glfmGetDecorView :: "GLFMPlatformData \<Rightarrow> int \<times> GLFMPlatformData" where
  "glfmGetDecorView w0 =
    (let (exc0, w1) = envNext w0 in if exc0 \<noteq> 0 then (0, w1) else
     let (window, w2) = envNext w1;
         (exc1, w3) = (if window = 0 then (1, w2) else envNext w2)
     in if exc1 \<noteq> 0 then (0, w3) else
     let (decorView, w4) = envNext w3;
         (exc2, w5) = envNext w4
     in (if exc2 \<noteq> 0 then 0 else decorView, w5))"

definition glfmGetWindowVisibleDisplayFrame ::
  "GLFMPlatformData \<Rightarrow> ARect \<Rightarrow> ARect \<times> GLFMPlatformData" where
  "glfmGetWindowVisibleDisplayFrame w0 defaultRect =
    (let (exc0, w1) = envNext w0 in if exc0 \<noteq> 0 then (defaultRect, w1) else
     let (decorView, w2) = glfmGetDecorView w1 in if decorView = 0 then (defaultRect, w2) else
     let (exc1, w3) = envNext w2 in if exc1 \<noteq> 0 then (defaultRect, w3) else
     let (exc2, w4) = envNext w3 in if exc2 \<noteq> 0 then (defaultRect, w4) else
     let (exc3, w5) = envNext w4 in if exc3 \<noteq> 0 then (defaultRect, w5) else
     let (left', w6) = envNext w5;
         (right', w7) = envNext w6;
         (top', w8) = envNext w7;
         (bottom', w9) = envNext w8;
         (exc4, w10) = envNext w9
     in if exc4 \<noteq> 0 then (defaultRect, w10)
        else (\<lparr>left = left', top = top', right = right', bottom = bottom'\<rparr>, w10))"

text \<open>The C conversion \<open>(int)x\<close> of a \<open>double\<close> truncates towards zero.\<close>

definition int_of_double :: "real \<Rightarrow> int" where
  "int_of_double x = (if x \<ge> 0 then \<lfloor>x\<rfloor> else \<lceil>x\<rceil>)"

text \<open>
  Arithmetic on \<open>double\<close> (IEEE 754 binary64, round to nearest, ties to even): the exact
  result \<open>x\<close> is rounded to the nearest multiple of \<open>2 ^ e\<close>, where \<open>e\<close> is the exponent of
  the last of the 53 significant bits of \<open>x\<close>, and never less than \<open>- 1074\<close> (the spacing of
  the subnormal numbers); of two nearest multiples the even one is taken. Results of
  magnitude \<open>2 ^ 1024\<close> and more (infinities in C) do not arise from a screen density.
  \<open>binaryExponent x\<close> is the exponent of the leading bit of a positive \<open>x\<close>: the \<open>k\<close> with
  \<open>2 ^ k \<le> x < 2 ^ (k + 1)\<close>.
\<close>

definition roundHalfEven :: "real \<Rightarrow> int" where
  "roundHalfEven q =
    (let f = \<lfloor>q\<rfloor>; r = q - of_int f
     in if r < 1 / 2 then f else if 1 / 2 < r then f + 1 else if even f then f else f + 1)"

function binaryExponent :: "real \<Rightarrow> int" where
  "binaryExponent x =
    (if x \<le> 0 then 0
     else if 2 \<le> x then binaryExponent (x / 2) + 1
     else if x < 1 then binaryExponent (2 * x) - 1
     else 0)"
  by pat_completeness auto
termination
proof (relation "measure (\<lambda>x. nat \<lfloor>\<bar>log 2 x\<bar>\<rfloor> + (if x < 1 then 1 else 0))")
  show "wf (measure (\<lambda>x. nat \<lfloor>\<bar>log 2 x\<bar>\<rfloor> + (if x < 1 then 1 else 0)))" by simp
next
  fix x :: real
  assume a: "\<not> x \<le> 0" "2 \<le> x"
  have l: "log 2 (x / 2) = log 2 x - 1" using a by (simp add: log_divide)
  have "1 \<le> log 2 x" using a by (simp add: le_log_iff)
  then show "(x / 2, x) \<in> measure (\<lambda>x. nat \<lfloor>\<bar>log 2 x\<bar>\<rfloor> + (if x < 1 then 1 else 0))"
    using a l by (simp add: abs_if)
next
  fix x :: real
  assume a: "\<not> x \<le> 0" "\<not> 2 \<le> x" "x < 1"
  have l: "log 2 (2 * x) = 1 + log 2 x" using a by (simp add: log_mult)
  have n: "log 2 x < 0" using a by simp
  show "(2 * x, x) \<in> measure (\<lambda>x. nat \<lfloor>\<bar>log 2 x\<bar>\<rfloor> + (if x < 1 then 1 else 0))"
  proof (cases "2 * x < 1")
    case True
    then have "log 2 (2 * x) < 0" using a by simp
    then show ?thesis using a l n True by (simp add: abs_if) linarith
  next
    case False
    then have "0 \<le> log 2 (2 * x)" using a by simp
    moreover have "log 2 (2 * x) < 1" using l n by simp
    ultimately have "\<lfloor>\<bar>log 2 (2 * x)\<bar>\<rfloor> = 0" by (simp add: abs_if floor_eq_iff)
    then show ?thesis using a False by simp
  qed
qed

declare binaryExponent.simps [simp del]

definition pow2 :: "int \<Rightarrow> real" where
  "pow2 e = (if 0 \<le> e then 2 ^ nat e else 1 / 2 ^ nat (- e))"

definition doubleExponent :: "real \<Rightarrow> int" where
  "doubleExponent x = max (binaryExponent \<bar>x\<bar> - 52) (- 1074)"

definition roundToDouble :: "real \<Rightarrow> real" where
  "roundToDouble x =
    of_int (roundHalfEven (x / pow2 (doubleExponent x))) * pow2 (doubleExponent x)"

text \<open>
  Arithmetic on \<open>int\<close> as the machine does it: the result is wrapped to 32 bits, two's
  complement (in C the overflow of a signed operation is undefined).
\<close>

definition int32 :: "int \<Rightarrow> int" where
  "int32 x = (x + 2 ^ 31) mod 2 ^ 32 - 2 ^ 31"

definition nonVisibleRects :: "ARect \<Rightarrow> ARect \<Rightarrow> ARect list" where
  "nonVisibleRects windowRect visibleRect =
    [\<lparr>left = left windowRect, top = top windowRect,
      right = left visibleRect, bottom = bottom windowRect\<rparr>,
     \<lparr>left = right visibleRect, top = top windowRect,
      right = right windowRect, bottom = bottom windowRect\<rparr>,
     \<lparr>left = left windowRect, top = top windowRect,
      right = right windowRect, bottom = top visibleRect\<rparr>,
     \<lparr>left = left windowRect, top = bottom visibleRect,
      right = right windowRect, bottom = bottom windowRect\<rparr>]"

text \<open>The body of the loop that finds the largest band: \<open>(largestIndex, largestArea)\<close>.\<close>

definition largestRound :: "int \<Rightarrow> ARect list \<Rightarrow> nat \<times> int \<Rightarrow> nat \<Rightarrow> nat \<times> int" where
  "largestRound minimumKeyboardSize nonVisibleRect la i =
    (let w = int32 (right (nonVisibleRect ! i) - left (nonVisibleRect ! i));
         h = int32 (bottom (nonVisibleRect ! i) - top (nonVisibleRect ! i));
         area = int32 (w * h)
     in if w \<ge> minimumKeyboardSize \<and> h \<ge> minimumKeyboardSize \<and> area > snd la
        then (i, area) else la)"

text \<open>
  \<open>_glfmUpdateKeyboardVisibility\<close>. In \<open>(int)(100 * platformData->scale)\<close> the product is
  one of doubles. The callback's \<open>double\<close> arguments are converted from \<open>int\<close> values, which
  a double holds exactly.
\<close>

definition glfmUpdateKeyboardVisibility :: "GLFMPlatformData \<Rightarrow> GLFMPlatformData" where
  "glfmUpdateKeyboardVisibility w0 =
    (let windowRect = contentRect w0;
         (visibleRect, w1) = glfmGetWindowVisibleDisplayFrame w0 windowRect;
         nonVisibleRect = nonVisibleRects windowRect visibleRect;
         minimumKeyboardSize = int_of_double (roundToDouble (100 * scale w1));
         (largestIndex, largestArea) =
           foldl (largestRound minimumKeyboardSize nonVisibleRect) (0, -1) [0..<4];
         keyboardVisible' = (largestArea > 0);
         keyboardFrame' = (if keyboardVisible' then nonVisibleRect ! largestIndex
                           else \<lparr>left = 0, top = 0, right = 0, bottom = 0\<rparr>)
     in if keyboardVisible w1 \<noteq> keyboardVisible' \<or> \<not> ARectsEqual (keyboardFrame w1) keyboardFrame'
        then invokeIf (keyboardVisibilityChangedFunc (display w1))
               (KeyboardVisibilityChangedCall keyboardVisible'
                  (left keyboardFrame') (top keyboardFrame')
                  (int32 (right keyboardFrame' - left keyboardFrame'))
                  (int32 (bottom keyboardFrame' - top keyboardFrame')))
               (w1\<lparr>keyboardVisible := keyboardVisible', keyboardFrame := keyboardFrame',
                    refreshRequested := True\<rparr>)
        else w1)"

section \<open>Lifecycle commands\<close>

text \<open>
  The commands \<open>_glfmOnAppCmd\<close> names, and \<open>APP_CMD_OTHER\<close> for every code that reaches the
  \<open>default\<close> label. \<open>_glfmSetFullScreen\<close> and \<open>_glfmResetContentRect\<close> only talk to the Java
  side: they read and write no platform data and invoke no callback.
\<close>

datatype app_cmd =
  APP_CMD_SAVE_STATE | APP_CMD_INIT_WINDOW | APP_CMD_WINDOW_RESIZED | APP_CMD_TERM_WINDOW
  | APP_CMD_WINDOW_REDRAW_NEEDED | APP_CMD_GAINED_FOCUS | APP_CMD_LOST_FOCUS
  | APP_CMD_CONTENT_RECT_CHANGED | APP_CMD_LOW_MEMORY | APP_CMD_START | APP_CMD_RESUME
  | APP_CMD_PAUSE | APP_CMD_STOP | APP_CMD_DESTROY | APP_CMD_OTHER int

fun glfmOnAppCmd :: "GLFMPlatformData \<Rightarrow> app_cmd \<Rightarrow> GLFMPlatformData" where
  "glfmOnAppCmd w0 APP_CMD_SAVE_STATE = w0"
| "glfmOnAppCmd w0 APP_CMD_INIT_WINDOW =
    (let (success, w1) = glfmEGLInit w0;
         w2 = (if \<not> success then glfmEGLCheckError w1 else w1)
     in glfmDrawFrame (w2\<lparr>refreshRequested := True\<rparr>))"
| "glfmOnAppCmd w0 APP_CMD_WINDOW_RESIZED = w0"
| "glfmOnAppCmd w0 APP_CMD_TERM_WINDOW = glfmSetAnimating (glfmEGLSurfaceDestroy w0) False"
| "glfmOnAppCmd w0 APP_CMD_WINDOW_REDRAW_NEEDED = w0\<lparr>refreshRequested := True\<rparr>"
| "glfmOnAppCmd w0 APP_CMD_GAINED_FOCUS = glfmSetAnimating w0 True"
| "glfmOnAppCmd w0 APP_CMD_LOST_FOCUS =
    (if animating w0
     then glfmSetAnimating (glfmDrawFrame (w0\<lparr>refreshRequested := True\<rparr>)) False
     else w0)"
| "glfmOnAppCmd w0 APP_CMD_CONTENT_RECT_CHANGED =
    (let w1 = w0\<lparr>refreshRequested := True, contentRect := pendingContentRect w0\<rparr>;
         w2 = glfmUpdateSurfaceSizeIfNeeded w1 True;
         w3 = glfmReportOrientationChangeIfNeeded w2
     in glfmUpdateKeyboardVisibility w3)"
| "glfmOnAppCmd w0 APP_CMD_LOW_MEMORY = invokeIf (lowMemoryFunc (display w0)) LowMemoryCall w0"
| "glfmOnAppCmd w0 APP_CMD_START = w0"
| "glfmOnAppCmd w0 APP_CMD_RESUME = w0"
| "glfmOnAppCmd w0 APP_CMD_PAUSE = w0"
| "glfmOnAppCmd w0 APP_CMD_STOP = w0"
| "glfmOnAppCmd w0 APP_CMD_DESTROY = glfmEGLDestroy w0"
| "glfmOnAppCmd w0 (APP_CMD_OTHER c) = w0"

section \<open>Key, text and touch input\<close>

text \<open>
  \<open>_glfmUnicodeToUTF8\<close> fills the static buffer \<open>utf8\<close> from its start, terminator
  included; the model returns the bytes it writes. The callback is handed the buffer as a C
  string: the bytes before the first zero (\<open>cString\<close>).
\<close>

definition glfmUnicodeToUTF8 :: "32 word \<Rightarrow> 8 word list" where
  "glfmUnicodeToUTF8 unicode =
    (if unicode < 0x80 then
       [ucast (unicode AND 0x7f), 0]
     else if unicode < 0x800 then
       [ucast (0xc0 OR drop_bit 6 unicode),
        ucast (0x80 OR (unicode AND 0x3f)), 0]
     else if unicode < 0x10000 then
       [ucast (0xe0 OR drop_bit 12 unicode),
        ucast (0x80 OR (drop_bit 6 unicode AND 0x3f)),
        ucast (0x80 OR (unicode AND 0x3f)), 0]
     else if unicode < 0x110000 then
       [ucast (0xf0 OR drop_bit 18 unicode),
        ucast (0x80 OR (drop_bit 12 unicode AND 0x3f)),
        ucast (0x80 OR (drop_bit 6 unicode AND 0x3f)),
        ucast (0x80 OR (unicode AND 0x3f)), 0]
     else [0])"

definition cString :: "8 word list \<Rightarrow> 8 word list" where
  "cString buf = takeWhile (\<lambda>b. b \<noteq> 0) buf"

text \<open>Values of \<^verbatim>\<open>android/keycodes.h\<close> and \<^verbatim>\<open>android/input.h\<close>.\<close>

definition AKEYCODE_BACK :: int where "AKEYCODE_BACK = 4"
definition AKEYCODE_0 :: int where "AKEYCODE_0 = 7"
definition AKEYCODE_9 :: int where "AKEYCODE_9 = 16"
definition AKEYCODE_DPAD_UP :: int where "AKEYCODE_DPAD_UP = 19"
definition AKEYCODE_DPAD_DOWN :: int where "AKEYCODE_DPAD_DOWN = 20"
definition AKEYCODE_DPAD_LEFT :: int where "AKEYCODE_DPAD_LEFT = 21"
definition AKEYCODE_DPAD_RIGHT :: int where "AKEYCODE_DPAD_RIGHT = 22"
definition AKEYCODE_DPAD_CENTER :: int where "AKEYCODE_DPAD_CENTER = 23"
definition AKEYCODE_A :: int where "AKEYCODE_A = 29"
definition AKEYCODE_Z :: int where "AKEYCODE_Z = 54"
definition AKEYCODE_TAB :: int where "AKEYCODE_TAB = 61"
definition AKEYCODE_SPACE :: int where "AKEYCODE_SPACE = 62"
definition AKEYCODE_ENTER :: int where "AKEYCODE_ENTER = 66"
definition AKEYCODE_MENU :: int where "AKEYCODE_MENU = 82"

definition AKEY_EVENT_ACTION_DOWN :: int where "AKEY_EVENT_ACTION_DOWN = 0"
definition AKEY_EVENT_ACTION_UP :: int where "AKEY_EVENT_ACTION_UP = 1"
definition AKEY_EVENT_ACTION_MULTIPLE :: int where "AKEY_EVENT_ACTION_MULTIPLE = 2"

definition AMOTION_EVENT_ACTION_MASK :: "32 word" where
  "AMOTION_EVENT_ACTION_MASK = 0xff"
definition AMOTION_EVENT_ACTION_POINTER_INDEX_MASK :: "32 word" where
  "AMOTION_EVENT_ACTION_POINTER_INDEX_MASK = 0xff00"
definition AMOTION_EVENT_ACTION_POINTER_INDEX_SHIFT :: nat where
  "AMOTION_EVENT_ACTION_POINTER_INDEX_SHIFT = 8"
definition AMOTION_EVENT_ACTION_DOWN :: "32 word" where "AMOTION_EVENT_ACTION_DOWN = 0"
definition AMOTION_EVENT_ACTION_UP :: "32 word" where "AMOTION_EVENT_ACTION_UP = 1"
definition AMOTION_EVENT_ACTION_MOVE :: "32 word" where "AMOTION_EVENT_ACTION_MOVE = 2"
definition AMOTION_EVENT_ACTION_CANCEL :: "32 word" where "AMOTION_EVENT_ACTION_CANCEL = 3"
definition AMOTION_EVENT_ACTION_OUTSIDE :: "32 word" where "AMOTION_EVENT_ACTION_OUTSIDE = 4"
definition AMOTION_EVENT_ACTION_POINTER_DOWN :: "32 word" where
  "AMOTION_EVENT_ACTION_POINTER_DOWN = 5"
definition AMOTION_EVENT_ACTION_POINTER_UP :: "32 word" where
  "AMOTION_EVENT_ACTION_POINTER_UP = 6"

text \<open>
  An input event as its accessors show it: \<open>AKeyEvent_getKeyCode\<close>, \<open>AKeyEvent_getAction\<close>,
  \<open>AKeyEvent_getRepeatCount\<close>; \<open>AMotionEvent_getAction\<close>, \<open>AMotionEvent_getPointerCount\<close>,
  and \<open>AMotionEvent_getPointerId\<close>, \<open>AMotionEvent_getX\<close>, \<open>AMotionEvent_getY\<close> by pointer
  index. \<open>OtherEvent\<close> is an event whose type is neither key nor motion.
\<close>

record key_event =
  keyCode :: int
  keyAction :: int
  repeatCount :: int

record motion_event =
  motionAction :: "32 word"
  pointerCount :: nat
  pointerId :: "nat \<Rightarrow> int"
  pointerX :: "nat \<Rightarrow> real"
  pointerY :: "nat \<Rightarrow> real"

datatype input_event = KeyEvent key_event | MotionEvent motion_event | OtherEvent

text \<open>
  \<open>_glfmGetUnicodeChar\<close>: the answers are \<open>ExceptionCheck\<close>, the class, the exception test
  (asked only for a class that is not null), the new event object, its exception test,
  the code \<open>getUnicodeChar\<close> returns, and the last exception test.
\<close>

definition glfmGetUnicodeChar :: "GLFMPlatformData \<Rightarrow> 32 word \<times> GLFMPlatformData" where
  "glfmGetUnicodeChar w0 =
    (let (exc0, w1) = envNext w0 in if exc0 \<noteq> 0 then (0, w1) else
     let (keyEventClass, w2) = envNext w1;
         (exc1, w3) = (if keyEventClass = 0 then (1, w2) else envNext w2)
     in if exc1 \<noteq> 0 then (0, w3) else
     let (eventObject, w4) = envNext w3;
         (exc2, w5) = (if eventObject = 0 then (1, w4) else envNext w4)
     in if exc2 \<noteq> 0 then (0, w5) else
     let (unicodeKey, w6) = envNext w5;
         (exc3, w7) = envNext w6
     in if exc3 \<noteq> 0 then (0, w7) else (word_of_int unicodeKey, w7))"

definition glfmHandleBackButton :: "GLFMPlatformData \<Rightarrow> bool \<times> GLFMPlatformData" where
  "glfmHandleBackButton w0 =
    (let (exc0, w1) = envNext w0 in if exc0 \<noteq> 0 then (False, w1) else
     let (handled, w2) = envNext w1;
         (exc1, w3) = envNext w2
     in (exc1 = 0 \<and> handled \<noteq> 0, w3))"

text \<open>The \<open>switch\<close> on the key code.\<close>

definition glfmKeyOfKeyCode :: "int \<Rightarrow> GLFMKey" where
  "glfmKeyOfKeyCode aKeyCode =
    (if aKeyCode = AKEYCODE_DPAD_LEFT then GLFMKeyLeft
     else if aKeyCode = AKEYCODE_DPAD_RIGHT then GLFMKeyRight
     else if aKeyCode = AKEYCODE_DPAD_UP then GLFMKeyUp
     else if aKeyCode = AKEYCODE_DPAD_DOWN then GLFMKeyDown
     else if aKeyCode = AKEYCODE_ENTER \<or> aKeyCode = AKEYCODE_DPAD_CENTER then GLFMKeyEnter
     else if aKeyCode = AKEYCODE_TAB then GLFMKeyTab
     else if aKeyCode = AKEYCODE_SPACE then GLFMKeySpace
     else if aKeyCode = AKEYCODE_BACK then GLFMKeyNavBack
     else if aKeyCode = AKEYCODE_MENU then GLFMKeyNavMenu
     else if aKeyCode \<ge> AKEYCODE_0 \<and> aKeyCode \<le> AKEYCODE_9
       then GLFMKeyCode (aKeyCode - AKEYCODE_0 + 48)
     else if aKeyCode \<ge> AKEYCODE_A \<and> aKeyCode \<le> AKEYCODE_Z
       then GLFMKeyCode (aKeyCode - AKEYCODE_A + 65)
     else GLFMKeyNone)"

text \<open>The key callback returns whether the embedder handled the key: an answer of the world.\<close>

definition invokeKeyFunc ::
  "GLFMKey \<Rightarrow> GLFMKeyAction \<Rightarrow> GLFMPlatformData \<Rightarrow> bool \<times> GLFMPlatformData" where
  "invokeKeyFunc key action w0 =
    (let (handled, w1) = envNext (invoke (KeyCall key action) w0) in (handled \<noteq> 0, w1))"

text \<open>\<open>for (i = AKeyEvent_getRepeatCount(event); i > 0; i--)\<close> on the key callback.\<close>

fun keyMultiple :: "nat \<Rightarrow> GLFMKey \<Rightarrow> bool \<times> GLFMPlatformData \<Rightarrow> bool \<times> GLFMPlatformData" where
  "keyMultiple 0 key hw = hw"
| "keyMultiple (Suc i) key (handled, w0) =
    (let (pressed, w1) = invokeKeyFunc key GLFMKeyActionPressed w0;
         (released, w2) = invokeKeyFunc key GLFMKeyActionReleased w1
     in keyMultiple i key (handled \<or> pressed \<or> released, w2))"

definition keyEventKey :: "GLFMPlatformData \<Rightarrow> key_event \<Rightarrow> bool \<times> GLFMPlatformData" where
  "keyEventKey w0 event =
    (if keyFunc (display w0) \<and> keyCode event \<noteq> 0
        \<and> glfmKeyOfKeyCode (keyCode event) \<noteq> GLFMKeyNone then
       (let key = glfmKeyOfKeyCode (keyCode event) in
        if keyAction event = AKEY_EVENT_ACTION_UP then
          (let (handled, w1) = invokeKeyFunc key GLFMKeyActionReleased w0
           in if \<not> handled \<and> keyCode event = AKEYCODE_BACK
              then glfmHandleBackButton w1 else (handled, w1))
        else if keyAction event = AKEY_EVENT_ACTION_DOWN then
          invokeKeyFunc key
            (if repeatCount event > 0 then GLFMKeyActionRepeated else GLFMKeyActionPressed) w0
        else if keyAction event = AKEY_EVENT_ACTION_MULTIPLE then
          keyMultiple (nat (repeatCount event)) key (False, w0)
        else (False, w0))
     else (False, w0))"

definition keyEventChar :: "GLFMPlatformData \<Rightarrow> key_event \<Rightarrow> GLFMPlatformData" where
  "keyEventChar w0 event =
    (if charFunc (display w0)
        \<and> (keyAction event = AKEY_EVENT_ACTION_DOWN
             \<or> keyAction event = AKEY_EVENT_ACTION_MULTIPLE) then
       (let (unicode, w1) = glfmGetUnicodeChar w0
        in if unicode \<ge> 0x20 then
             (let str = cString (glfmUnicodeToUTF8 unicode)
              in if keyAction event = AKEY_EVENT_ACTION_DOWN then invoke (CharCall str) w1
                 else (invoke (CharCall str) ^^ nat (repeatCount event)) w1)
           else w1)
     else w0)"

text \<open>The \<open>switch\<close> on the masked action: the phase, or nothing for an unknown action.\<close>

definition touchPhaseOfAction :: "32 word \<Rightarrow> GLFMTouchPhase option" where
  "touchPhaseOfAction maskedAction =
    (if maskedAction = AMOTION_EVENT_ACTION_DOWN
        \<or> maskedAction = AMOTION_EVENT_ACTION_POINTER_DOWN then Some GLFMTouchPhaseBegan
     else if maskedAction = AMOTION_EVENT_ACTION_UP
        \<or> maskedAction = AMOTION_EVENT_ACTION_POINTER_UP
        \<or> maskedAction = AMOTION_EVENT_ACTION_OUTSIDE then Some GLFMTouchPhaseEnded
     else if maskedAction = AMOTION_EVENT_ACTION_MOVE then Some GLFMTouchPhaseMoved
     else if maskedAction = AMOTION_EVENT_ACTION_CANCEL then Some GLFMTouchPhaseCancelled
     else None)"

text \<open>The guarded call of the touch callback for the pointer at \<open>index\<close>.\<close>

definition touchPointer ::
  "int \<Rightarrow> motion_event \<Rightarrow> GLFMTouchPhase \<Rightarrow> GLFMPlatformData \<Rightarrow> nat \<Rightarrow> GLFMPlatformData" where
  "touchPointer maxTouches event phase w0 index =
    (let touchNumber = pointerId event index
     in if touchNumber \<ge> 0 \<and> touchNumber < maxTouches
        then invoke (TouchCall touchNumber phase (pointerX event index) (pointerY event index)) w0
        else w0)"

definition motionEventTouch :: "GLFMPlatformData \<Rightarrow> motion_event \<Rightarrow> GLFMPlatformData" where
  "motionEventTouch w0 event =
    (if touchFunc (display w0) then
       (let maxTouches = (if multitouchEnabled w0 then MAX_SIMULTANEOUS_TOUCHES else 1);
            action = motionAction event;
            maskedAction = action AND AMOTION_EVENT_ACTION_MASK
        in case touchPhaseOfAction maskedAction of
             None \<Rightarrow> w0
           | Some phase \<Rightarrow>
               if phase = GLFMTouchPhaseMoved
               then foldl (touchPointer maxTouches event phase) w0 [0..<pointerCount event]
               else touchPointer maxTouches event phase w0
                      (unat (drop_bit AMOTION_EVENT_ACTION_POINTER_INDEX_SHIFT
                         (action AND AMOTION_EVENT_ACTION_POINTER_INDEX_MASK))))
     else w0)"

fun glfmOnInputEvent :: "GLFMPlatformData \<Rightarrow> input_event \<Rightarrow> int \<times> GLFMPlatformData" where
  "glfmOnInputEvent w0 (KeyEvent event) =
    (let (handled, w1) = keyEventKey w0 event
     in (if handled then 1 else 0, keyEventChar w1 event))"
| "glfmOnInputEvent w0 (MotionEvent event) = (1, motionEventTouch w0 event)"
| "glfmOnInputEvent w0 OtherEvent = (0, w0)"

section \<open>Refresh rate\<close>

text \<open>
  \<open>_glfmGetRefreshRate\<close>: the same chain of JNI lookups as for the orientation, then
  \<open>getRefreshRate\<close>, a \<open>float\<close>, and \<open>_glfmWasJavaExceptionThrown() || refreshRate <= 0\<close>.
\<close>

definition glfmGetRefreshRate :: "GLFMPlatformData \<Rightarrow> jfloat \<times> GLFMPlatformData" where
  "glfmGetRefreshRate w0 =
    (let (window, w1) = envNext w0;
         (exc1, w2) = (if window = 0 then (1, w1) else envNext w1)
     in if exc1 \<noteq> 0 then (JFloat 60, w2) else
     let (windowManager, w3) = envNext w2;
         (exc2, w4) = (if windowManager = 0 then (1, w3) else envNext w3)
     in if exc2 \<noteq> 0 then (JFloat 60, w4) else
     let (windowDisplay, w5) = envNext w4;
         (exc3, w6) = (if windowDisplay = 0 then (1, w5) else envNext w5)
     in if exc3 \<noteq> 0 then (JFloat 60, w6) else
     let (refreshRate, w7) = envNextFloat w6;
         (exc4, w8) = envNext w7
     in if exc4 \<noteq> 0 \<or> jfloat_le_zero refreshRate then (JFloat 60, w8)
        else (refreshRate, w8))"

section \<open>Start-up state and observations of the call log\<close>

text \<open>
  The platform data when \<open>android_main\<close> enters its loop for the first time: the zeroed
  \<open>calloc\<close> block, then \<open>refreshRequested\<close>, \<open>scale\<close>, \<open>display\<close> (filled in by the
  embedder's \<open>glfmMain\<close>), \<open>orientation\<close> and \<open>resizeEventWaitFrames\<close>.
\<close>

definition zeroRect :: ARect where
  "zeroRect = \<lparr>left = 0, top = 0, right = 0, bottom = 0\<rparr>"

definition android_main_init ::
  "GLFMDisplay \<Rightarrow> real \<Rightarrow> GLFMInterfaceOrientation \<Rightarrow> GLFMPlatformData" where
  "android_main_init d sc orient =
    \<lparr>display = d, contentRect = zeroRect, pendingContentRect = zeroRect,
     multitouchEnabled = False, keyboardFrame = zeroRect, keyboardVisible = False,
     animating = False, hasInited = False, refreshRequested = True, swapCalled = False,
     eglDisplay = EGL_NO_DISPLAY, eglSurface = EGL_NO_SURFACE, eglConfig = 0,
     eglContext = EGL_NO_CONTEXT, eglContextCurrent = False,
     width = 0, height = 0, scale = sc,
     resizeEventWaitFrames = RESIZE_EVENT_MAX_WAIT_FRAMES,
     renderingAPI = GLFMRenderingAPIOpenGLES2, sensorEventQueue = 0,
     sensorEventValid = replicate GLFM_NUM_SENSORS False,
     deviceSensorEnabled = replicate GLFM_NUM_SENSORS False,
     orientation = orient, calls = [], env = [], envFloat = []\<rparr>"

text \<open>
  The scale \<open>android_main\<close> stores for the screen density \<open>AConfiguration_getDensity\<close>
  answers: \<open>density / 160.0\<close>, a quotient of doubles, or 1. The density constants are those
  of \<^verbatim>\<open>android/configuration.h\<close>.
\<close>

definition ACONFIGURATION_DENSITY_DEFAULT :: int where "ACONFIGURATION_DENSITY_DEFAULT = 0"
definition ACONFIGURATION_DENSITY_NONE :: int where "ACONFIGURATION_DENSITY_NONE = 0xffff"
definition ACONFIGURATION_DENSITY_ANY :: int where "ACONFIGURATION_DENSITY_ANY = 0xfffe"

definition displayScale :: "int \<Rightarrow> real" where
  "displayScale density =
    (if density = ACONFIGURATION_DENSITY_DEFAULT \<or> density = ACONFIGURATION_DENSITY_NONE
        \<or> density = ACONFIGURATION_DENSITY_ANY \<or> density \<le> 0
     then 1 else roundToDouble (of_int density / 160))"

text \<open>
  The end of \<open>android_main\<close>: the body of \<open>if (app->destroyRequested != 0)\<close>, which
  switches the sensors off, destroys the event queue, tears EGL down and clears the
  animating flag before the function returns.
\<close>

definition destroyThread :: "GLFMPlatformData \<Rightarrow> GLFMPlatformData" where
  "destroyThread w0 =
    (let w1 = (if sensorEventQueue w0 \<noteq> 0
               then (glfmSetAllRequestedSensorsEnabled w0 False)\<lparr>sensorEventQueue := 0\<rparr>
               else w0)
     in glfmSetAnimating (glfmEGLDestroy w1) False)"

text \<open>
  The lifecycle commands of one call of \<open>android_main\<close>, in the order in which its loop
  hands them to \<open>_glfmOnAppCmd\<close>. Modelled from the spec: \<open>destroyRequested\<close> is set by the
  glue code (\<^verbatim>\<open>android_native_app_glue\<close>, which is not among the sources) when it passes
  the destroy command on, after which control returns to the caller; the commands that
  follow are not processed by this call.
\<close>

fun android_main_commands :: "GLFMPlatformData \<Rightarrow> app_cmd list \<Rightarrow> GLFMPlatformData" where
  "android_main_commands w [] = w"
| "android_main_commands w (cmd # cmds) =
    (if cmd = APP_CMD_DESTROY then destroyThread (glfmOnAppCmd w cmd)
     else android_main_commands (glfmOnAppCmd w cmd) cmds)"

text \<open>An embedder that registers every callback and asks for OpenGL ES 2, no sensors.\<close>

definition plainDisplay :: GLFMDisplay where
  "plainDisplay =
    \<lparr>preferredAPI = GLFMRenderingAPIOpenGLES2, depthFormat = GLFMDepthFormatNone,
     stencilFormat = GLFMStencilFormatNone, multisample = GLFMMultisampleNone,
     surfaceCreatedFunc = True, surfaceDestroyedFunc = True, renderFunc = True,
     surfaceRefreshFunc = True, surfaceResizedFunc = True, focusFunc = True,
     lowMemoryFunc = True, orientationChangedFunc = True,
     keyboardVisibilityChangedFunc = True, keyFunc = True, charFunc = True,
     touchFunc = True, sensorFuncs = replicate GLFM_NUM_SENSORS False\<rparr>"

definition startData :: GLFMPlatformData where
  "startData = android_main_init plainDisplay 1 GLFMInterfaceOrientationUnknown"

text \<open>The arguments of the focus, resize and character callbacks in a log, in order.\<close>

fun focusCalls :: "call list \<Rightarrow> bool list" where
  "focusCalls [] = []"
| "focusCalls (FocusCall b # cs) = b # focusCalls cs"
| "focusCalls (c # cs) = focusCalls cs"

fun resizedCalls :: "call list \<Rightarrow> (int \<times> int) list" where
  "resizedCalls [] = []"
| "resizedCalls (SurfaceResizedCall w h # cs) = (w, h) # resizedCalls cs"
| "resizedCalls (c # cs) = resizedCalls cs"

fun charCalls :: "call list \<Rightarrow> 8 word list list" where
  "charCalls [] = []"
| "charCalls (CharCall str # cs) = str # charCalls cs"
| "charCalls (c # cs) = charCalls cs"


text \<open>
  UTF-8 as the standard tabulates it (RFC 3629, section 3): the scalar value's bits,
  six at a time from the low end, in continuation bytes \<open>10xxxxxx\<close>, the rest in a lead
  byte \<open>0xxxxxxx\<close>, \<open>110xxxxx\<close>, \<open>1110xxxx\<close> or \<open>11110xxx\<close>.
\<close>

definition utf8_standard :: "nat \<Rightarrow> nat list" where
  "utf8_standard c =
    (if c < 0x80 then [c]
     else if c < 0x800 then [0xC0 + c div 64, 0x80 + c mod 64]
     else if c < 0x10000 then [0xE0 + c div 4096, 0x80 + c div 64 mod 64, 0x80 + c mod 64]
     else [0xF0 + c div 262144, 0x80 + c div 4096 mod 64, 0x80 + c div 64 mod 64,
           0x80 + c mod 64])"

text \<open>A band of the window is large enough for a keyboard of minimum size \<open>m\<close>; its area.\<close>

definition bandEligible :: "int \<Rightarrow> ARect \<Rightarrow> bool" where
  "bandEligible m r = (right r - left r \<ge> m \<and> bottom r - top r \<ge> m)"

definition bandArea :: "ARect \<Rightarrow> int" where
  "bandArea r = (right r - left r) * (bottom r - top r)"

text \<open>The width, the height and the area of a band are values of a 32-bit \<open>int\<close>.\<close>

definition bandFits :: "ARect \<Rightarrow> bool" where
  "bandFits r =
    (\<bar>right r - left r\<bar> < 2 ^ 31 \<and> \<bar>bottom r - top r\<bar> < 2 ^ 31
     \<and> \<bar>(right r - left r) * (bottom r - top r)\<bar> < 2 ^ 31)"

text \<open>
  The bands \<open>_glfmUpdateKeyboardVisibility\<close> looks at in a state, and its threshold: 100
  density-independent units in pixels, as the code computes them from the scale.
\<close>

definition keyboardBands :: "GLFMPlatformData \<Rightarrow> ARect list" where
  "keyboardBands w =
    nonVisibleRects (contentRect w) (fst (glfmGetWindowVisibleDisplayFrame w (contentRect w)))"

definition minimumKeyboardSize :: "GLFMPlatformData \<Rightarrow> int" where
  "minimumKeyboardSize w = int_of_double (roundToDouble (100 * scale w))"

text \<open>
  The size the two \<open>eglQuerySurface\<close> calls of the next frame will be answered; whether the
  next frame compares sizes and finds them different; and in how many of the next \<open>n\<close>
  frames that is so.
\<close>

definition liveSize :: "GLFMPlatformData \<Rightarrow> int \<times> int" where
  "liveSize w = (fst (envNext w), fst (envNext (snd (envNext w))))"

definition frameObservesChange :: "GLFMPlatformData \<Rightarrow> bool" where
  "frameObservesChange w =
    (eglContextCurrent w \<and> (fst (liveSize w) \<noteq> width w \<or> snd (liveSize w) \<noteq> height w))"

fun changedFrames :: "nat \<Rightarrow> GLFMPlatformData \<Rightarrow> nat" where
  "changedFrames 0 w = 0"
| "changedFrames (Suc n) w =
    (if frameObservesChange w then 1 else 0) + changedFrames n (glfmDrawFrame w)"

text \<open>
  The touches a motion event delivers, in the words of the specification: a move carries
  all its pointers, any other action the one pointer whose index is embedded in the action
  code; each pointer whose identifier is in \<open>[0, maxTouches)\<close> is one callback, in pointer
  order, and an unknown action delivers nothing.
\<close>

definition touchPointerIndices :: "motion_event \<Rightarrow> GLFMTouchPhase \<Rightarrow> nat list" where
  "touchPointerIndices event phase =
    (if phase = GLFMTouchPhaseMoved then [0..<pointerCount event]
     else [unat (drop_bit 8 (motionAction event AND 0xff00))])"

definition deliveredTouches :: "int \<Rightarrow> motion_event \<Rightarrow> call list" where
  "deliveredTouches maxTouches event =
    (case touchPhaseOfAction (motionAction event AND 0xff) of
       None \<Rightarrow> []
     | Some phase \<Rightarrow>
         map (\<lambda>i. TouchCall (pointerId event i) phase (pointerX event i) (pointerY event i))
           (filter (\<lambda>i. 0 \<le> pointerId event i \<and> pointerId event i < maxTouches)
              (touchPointerIndices event phase)))"

subsection \<open>Concrete runs\<close>

text \<open>
  A first window whose context is created but cannot be bound: \<open>eglGetDisplay\<close> answers
  display 1, \<open>eglChooseConfig\<close> one configuration (7), \<open>eglCreateWindowSurface\<close> surface 2,
  the two size queries 640 and 480, \<open>eglCreateContext\<close> context 3 of major version 2, and
  \<open>eglMakeCurrent\<close> fails with \<open>EGL_BAD_SURFACE\<close>, upon which surface 4 is created. The
  window goes away and comes back: surface 5, \<open>eglMakeCurrent\<close> succeeds, and the surface
  still measures 640 by 480.
\<close>

definition failedBindData :: GLFMPlatformData where
  "failedBindData =
    startData\<lparr>env := [1, 1, 7, 2, 1, 640, 1, 480, 3, 1, 2, 0, EGL_BAD_SURFACE, 4,
                       5, 1, 640, 480]\<rparr>"

text \<open>The same first window when \<open>eglMakeCurrent\<close> succeeds at once.\<close>

definition firstBindData :: GLFMPlatformData where
  "firstBindData = startData\<lparr>env := [1, 1, 7, 2, 1, 640, 1, 480, 3, 1, 2, 1, 640, 480]\<rparr>"

text \<open>
  A current context on a surface stored as 100 by 100 that measures 200 by 100 in each of
  the next six frames.
\<close>

definition resizingData :: GLFMPlatformData where
  "resizingData =
    startData\<lparr>eglContextCurrent := True, width := 100, height := 100,
              env := [200, 100, 200, 100, 200, 100, 200, 100, 200, 100, 200, 100]\<rparr>"

text \<open>
  The same surface when the live size is 200 by 100 in five frames, agrees with the stored
  size in the sixth, and is 300 by 100 in the seventh.
\<close>

definition transientData :: GLFMPlatformData where
  "transientData =
    startData\<lparr>eglContextCurrent := True, width := 100, height := 100,
              env := [200, 100, 200, 100, 200, 100, 200, 100, 200, 100, 100, 100, 300, 100]\<rparr>"

text \<open>
  A window of 1000 by 2000 whose visible display frame, read without any Java exception,
  ends at \<open>visibleBottom\<close>.
\<close>

definition keyboardData :: "int \<Rightarrow> GLFMPlatformData" where
  "keyboardData visibleBottom =
    startData\<lparr>contentRect := \<lparr>left = 0, top = 0, right = 1000, bottom = 2000\<rparr>,
              env := [0, 0, 1, 0, 1, 0, 0, 0, 0, 0, 1000, 0, visibleBottom, 0]\<rparr>"

text \<open>
  The window and the visible frame \<open>(0, 0, 1000, 1500)\<close> of that run on a screen of density
  960, whose scale is 6; and a window of 50000 by 100000 whose visible frame ends at 50000.
\<close>

definition denseKeyboardData :: GLFMPlatformData where
  "denseKeyboardData = (keyboardData 1500)\<lparr>scale := displayScale 960\<rparr>"

definition hugeKeyboardData :: GLFMPlatformData where
  "hugeKeyboardData =
    startData\<lparr>contentRect := \<lparr>left = 0, top = 0, right = 50000, bottom = 100000\<rparr>,
              env := [0, 0, 1, 0, 1, 0, 0, 0, 0, 0, 50000, 0, 50000, 0]\<rparr>"

text \<open>Two refresh-rate queries that succeed: the display reports 90 Hz, then 120 Hz.\<close>

definition refreshData :: GLFMPlatformData where
  "refreshData =
    startData\<lparr>env := [1, 0, 1, 0, 1, 0, 0, 1, 0, 1, 0, 1, 0, 0],
              envFloat := [JFloat 90, JFloat 120]\<rparr>"

text \<open>
  A key event for which the key callback answers "not handled" and \<open>getUnicodeChar\<close>
  answers U+1F600; a motion event that moves three pointers with identifiers 0, 7 and 3.
\<close>

definition emojiKeyData :: GLFMPlatformData where
  "emojiKeyData = startData\<lparr>env := [0, 0, 1, 0, 1, 0, 0x1F600, 0]\<rparr>"

definition emojiKeyDown :: key_event where
  "emojiKeyDown = \<lparr>keyCode = AKEYCODE_A, keyAction = AKEY_EVENT_ACTION_DOWN, repeatCount = 0\<rparr>"

definition threePointerMove :: motion_event where
  "threePointerMove =
    \<lparr>motionAction = AMOTION_EVENT_ACTION_MOVE, pointerCount = 3,
     pointerId = (\<lambda>i. if i = 0 then 0 else if i = 1 then 7 else 3),
     pointerX = (\<lambda>i. 10), pointerY = (\<lambda>i. 20)\<rparr>"

section \<open>Lemmas: what each function leaves alone\<close>

text \<open>
  For every function of the model, the fields it does not touch, and what it adds to the
  call log. The lemmas are rewrite rules, so that a property of a composite function follows
  from the properties of its parts.
\<close>

lemma focusCalls_append [simp]: "focusCalls (xs @ ys) = focusCalls xs @ focusCalls ys"
  by (induction xs rule: focusCalls.induct) simp_all

lemma resizedCalls_append [simp]: "resizedCalls (xs @ ys) = resizedCalls xs @ resizedCalls ys"
  by (induction xs rule: resizedCalls.induct) simp_all

lemma charCalls_append [simp]: "charCalls (xs @ ys) = charCalls xs @ charCalls ys"
  by (induction xs rule: charCalls.induct) simp_all

lemma envNext_Cons: "env w = v # vs \<Longrightarrow> envNext w = (v, w\<lparr>env := vs\<rparr>)"
  by (simp add: envNext_def)

lemma envNext_frame [simp]:
  "animating (snd (envNext w)) = animating w"
  "hasInited (snd (envNext w)) = hasInited w"
  "display (snd (envNext w)) = display w"
  "resizeEventWaitFrames (snd (envNext w)) = resizeEventWaitFrames w"
  "width (snd (envNext w)) = width w"
  "height (snd (envNext w)) = height w"
  "orientation (snd (envNext w)) = orientation w"
  "keyboardVisible (snd (envNext w)) = keyboardVisible w"
  "keyboardFrame (snd (envNext w)) = keyboardFrame w"
  "contentRect (snd (envNext w)) = contentRect w"
  "scale (snd (envNext w)) = scale w"
  "multitouchEnabled (snd (envNext w)) = multitouchEnabled w"
  "calls (snd (envNext w)) = calls w"
  by (simp_all add: envNext_def split: list.splits)

lemma invoke_frame [simp]:
  "animating (invoke c w) = animating w"
  "hasInited (invoke c w) = hasInited w"
  "display (invoke c w) = display w"
  "resizeEventWaitFrames (invoke c w) = resizeEventWaitFrames w"
  "width (invoke c w) = width w"
  "height (invoke c w) = height w"
  "orientation (invoke c w) = orientation w"
  "keyboardVisible (invoke c w) = keyboardVisible w"
  "keyboardFrame (invoke c w) = keyboardFrame w"
  "contentRect (invoke c w) = contentRect w"
  "scale (invoke c w) = scale w"
  "multitouchEnabled (invoke c w) = multitouchEnabled w"
  "calls (invoke c w) = calls w @ [c]"
  by (simp_all add: invoke_def)

lemma invokeIf_frame [simp]:
  "animating (invokeIf b c w) = animating w"
  "hasInited (invokeIf b c w) = hasInited w"
  "display (invokeIf b c w) = display w"
  "resizeEventWaitFrames (invokeIf b c w) = resizeEventWaitFrames w"
  "width (invokeIf b c w) = width w"
  "height (invokeIf b c w) = height w"
  "orientation (invokeIf b c w) = orientation w"
  "keyboardVisible (invokeIf b c w) = keyboardVisible w"
  "keyboardFrame (invokeIf b c w) = keyboardFrame w"
  "contentRect (invokeIf b c w) = contentRect w"
  "scale (invokeIf b c w) = scale w"
  "multitouchEnabled (invokeIf b c w) = multitouchEnabled w"
  "calls (invokeIf b c w) = calls w @ (if b then [c] else [])"
  by (simp_all add: invokeIf_def)

lemma sensorSwitch_frame [simp]:
  "animating (sensorSwitch s e w i) = animating w"
  "hasInited (sensorSwitch s e w i) = hasInited w"
  "display (sensorSwitch s e w i) = display w"
  "focusCalls (calls (sensorSwitch s e w i)) = focusCalls (calls w)"
  by (simp_all add: sensorSwitch_def Let_def case_prod_beta)

lemma sensorQueue_frame [simp]:
  "animating (sensorQueue w) = animating w"
  "hasInited (sensorQueue w) = hasInited w"
  "display (sensorQueue w) = display w"
  "focusCalls (calls (sensorQueue w)) = focusCalls (calls w)"
  by (simp_all add: sensorQueue_def Let_def case_prod_beta)

lemma sensorRound_frame [simp]:
  "animating (sensorRound e w i) = animating w"
  "hasInited (sensorRound e w i) = hasInited w"
  "display (sensorRound e w i) = display w"
  "focusCalls (calls (sensorRound e w i)) = focusCalls (calls w)"
  by (simp_all add: sensorRound_def Let_def case_prod_beta)

lemma foldl_sensorRound_frame [simp]:
  "animating (foldl (sensorRound e) w is) = animating w"
  "hasInited (foldl (sensorRound e) w is) = hasInited w"
  "display (foldl (sensorRound e) w is) = display w"
  "focusCalls (calls (foldl (sensorRound e) w is)) = focusCalls (calls w)"
  by (induction "is" arbitrary: w; simp)+

lemma setAllSensors_frame [simp]:
  "animating (glfmSetAllRequestedSensorsEnabled w e) = animating w"
  "hasInited (glfmSetAllRequestedSensorsEnabled w e) = hasInited w"
  "display (glfmSetAllRequestedSensorsEnabled w e) = display w"
  "focusCalls (calls (glfmSetAllRequestedSensorsEnabled w e)) = focusCalls (calls w)"
  by (simp_all add: glfmSetAllRequestedSensorsEnabled_def)

lemma setAnimating_frame [simp]:
  "animating (glfmSetAnimating w a) = a"
  "display (glfmSetAnimating w a) = display w"
  by (simp_all add: glfmSetAnimating_def Let_def)



lemma getOrientation_frame [simp]:
  "animating (snd (glfmGetInterfaceOrientation w)) = animating w"
  "hasInited (snd (glfmGetInterfaceOrientation w)) = hasInited w"
  "display (snd (glfmGetInterfaceOrientation w)) = display w"
  "resizeEventWaitFrames (snd (glfmGetInterfaceOrientation w)) = resizeEventWaitFrames w"
  "width (snd (glfmGetInterfaceOrientation w)) = width w"
  "height (snd (glfmGetInterfaceOrientation w)) = height w"
  "orientation (snd (glfmGetInterfaceOrientation w)) = orientation w"
  "calls (snd (glfmGetInterfaceOrientation w)) = calls w"
  by (simp_all add: glfmGetInterfaceOrientation_def Let_def case_prod_beta)

lemma reportOrientation_frame [simp]:
  "animating (glfmReportOrientationChangeIfNeeded w) = animating w"
  "hasInited (glfmReportOrientationChangeIfNeeded w) = hasInited w"
  "display (glfmReportOrientationChangeIfNeeded w) = display w"
  "resizeEventWaitFrames (glfmReportOrientationChangeIfNeeded w) = resizeEventWaitFrames w"
  "width (glfmReportOrientationChangeIfNeeded w) = width w"
  "height (glfmReportOrientationChangeIfNeeded w) = height w"
  by (simp_all add: glfmReportOrientationChangeIfNeeded_def Let_def case_prod_beta)

lemma reportOrientation_calls:
  "calls (glfmReportOrientationChangeIfNeeded w) = calls w @
     (if orientation w \<noteq> fst (glfmGetInterfaceOrientation w) \<and> orientationChangedFunc (display w)
      then [OrientationChangedCall (fst (glfmGetInterfaceOrientation w))] else [])"
  by (simp add: glfmReportOrientationChangeIfNeeded_def Let_def case_prod_beta)

lemma reportOrientation_resizedCalls [simp]:
  "resizedCalls (calls (glfmReportOrientationChangeIfNeeded w)) = resizedCalls (calls w)"
  by (simp add: reportOrientation_calls)

lemma updateSize_frame [simp]:
  "animating (glfmUpdateSurfaceSizeIfNeeded w f) = animating w"
  "hasInited (glfmUpdateSurfaceSizeIfNeeded w f) = hasInited w"
  "display (glfmUpdateSurfaceSizeIfNeeded w f) = display w"
  by (simp_all add: glfmUpdateSurfaceSizeIfNeeded_def Let_def case_prod_beta)

lemma drawFrame_frame [simp]:
  "animating (glfmDrawFrame w) = animating w"
  "hasInited (glfmDrawFrame w) = hasInited w"
  "display (glfmDrawFrame w) = display w"
  by (simp_all add: glfmDrawFrame_def Let_def)

lemma eglQuery_frame [simp]:
  "animating (snd (eglQuery c w)) = animating w"
  "hasInited (snd (eglQuery c w)) = hasInited w"
  "display (snd (eglQuery c w)) = display w"
  by (simp_all add: eglQuery_def Let_def case_prod_beta)

lemma createAttempt_frame [simp]:
  "animating (snd (snd (snd (eglCreateContextAttempt a b w)))) = animating w"
  "hasInited (snd (snd (snd (eglCreateContextAttempt a b w)))) = hasInited w"
  "display (snd (snd (snd (eglCreateContextAttempt a b w)))) = display w"
  by (simp_all add: eglCreateContextAttempt_def Let_def case_prod_beta)

lemma contextAttemptIf_frame [simp]:
  "animating (snd (snd (snd (contextAttemptIf b major minor st)))) = animating (snd (snd (snd st)))"
  "hasInited (snd (snd (snd (contextAttemptIf b major minor st)))) = hasInited (snd (snd (snd st)))"
  "display (snd (snd (snd (contextAttemptIf b major minor st)))) = display (snd (snd (snd st)))"
  by (simp_all add: contextAttemptIf_def)

lemma contextCreate_frame [simp]:
  "animating (snd (glfmEGLContextCreate w)) = animating w"
  "hasInited (snd (glfmEGLContextCreate w)) = hasInited w"
  "display (snd (glfmEGLContextCreate w)) = display w"
  by (simp_all add: glfmEGLContextCreate_def Let_def case_prod_beta)

lemma contextInit_frame [simp]:
  "animating (snd (glfmEGLContextInit w)) = animating w"
  "hasInited (snd (glfmEGLContextInit w)) = hasInited w"
  "display (snd (glfmEGLContextInit w)) = display w"
  by (simp_all add: glfmEGLContextInit_def Let_def case_prod_beta)

lemma surfaceInit_frame [simp]:
  "animating (glfmEGLSurfaceInit w) = animating w"
  "hasInited (glfmEGLSurfaceInit w) = hasInited w"
  "display (glfmEGLSurfaceInit w) = display w"
  by (simp_all add: glfmEGLSurfaceInit_def Let_def case_prod_beta)

lemma chooseConfigLoop_frame [simp]:
  "animating (snd (chooseConfigLoop s d w)) = animating w"
  "hasInited (snd (chooseConfigLoop s d w)) = hasInited w"
  "display (snd (chooseConfigLoop s d w)) = display w"
  by (induction s d w rule: chooseConfigLoop.induct; subst chooseConfigLoop.simps; simp)+

lemma querySurfaceSize_frame [simp]:
  "animating (eglQuerySurfaceSize w) = animating w"
  "hasInited (eglQuerySurfaceSize w) = hasInited w"
  "display (eglQuerySurfaceSize w) = display w"
  by (simp_all add: eglQuerySurfaceSize_def Let_def case_prod_beta)

lemma eglInit_frame [simp]:
  "animating (snd (glfmEGLInit w)) = animating w"
  "hasInited (snd (glfmEGLInit w)) = hasInited w"
  "display (snd (glfmEGLInit w)) = display w"
  by (simp_all add: glfmEGLInit_def glfmReportSurfaceError_def Let_def case_prod_beta)

lemma surfaceDestroy_frame [simp]:
  "animating (glfmEGLSurfaceDestroy w) = animating w"
  "hasInited (glfmEGLSurfaceDestroy w) = hasInited w"
  "display (glfmEGLSurfaceDestroy w) = display w"
  by (simp_all add: glfmEGLSurfaceDestroy_def glfmEGLContextDisable_def)

lemma eglDestroy_frame [simp]:
  "animating (glfmEGLDestroy w) = animating w"
  "hasInited (glfmEGLDestroy w) = hasInited w"
  "display (glfmEGLDestroy w) = display w"
  by (simp_all add: glfmEGLDestroy_def Let_def)

lemma checkError_frame [simp]:
  "animating (glfmEGLCheckError w) = animating w"
  "hasInited (glfmEGLCheckError w) = hasInited w"
  "display (glfmEGLCheckError w) = display w"
  by (simp_all add: glfmEGLCheckError_def Let_def case_prod_beta)

lemma decorView_frame [simp]:
  "animating (snd (glfmGetDecorView w)) = animating w"
  "hasInited (snd (glfmGetDecorView w)) = hasInited w"
  "display (snd (glfmGetDecorView w)) = display w"
  "width (snd (glfmGetDecorView w)) = width w"
  "height (snd (glfmGetDecorView w)) = height w"
  "keyboardVisible (snd (glfmGetDecorView w)) = keyboardVisible w"
  "keyboardFrame (snd (glfmGetDecorView w)) = keyboardFrame w"
  "contentRect (snd (glfmGetDecorView w)) = contentRect w"
  "scale (snd (glfmGetDecorView w)) = scale w"
  "calls (snd (glfmGetDecorView w)) = calls w"
  by (simp_all add: glfmGetDecorView_def Let_def case_prod_beta)

lemma visibleFrame_frame [simp]:
  "animating (snd (glfmGetWindowVisibleDisplayFrame w r)) = animating w"
  "hasInited (snd (glfmGetWindowVisibleDisplayFrame w r)) = hasInited w"
  "display (snd (glfmGetWindowVisibleDisplayFrame w r)) = display w"
  "width (snd (glfmGetWindowVisibleDisplayFrame w r)) = width w"
  "height (snd (glfmGetWindowVisibleDisplayFrame w r)) = height w"
  "keyboardVisible (snd (glfmGetWindowVisibleDisplayFrame w r)) = keyboardVisible w"
  "keyboardFrame (snd (glfmGetWindowVisibleDisplayFrame w r)) = keyboardFrame w"
  "contentRect (snd (glfmGetWindowVisibleDisplayFrame w r)) = contentRect w"
  "scale (snd (glfmGetWindowVisibleDisplayFrame w r)) = scale w"
  "calls (snd (glfmGetWindowVisibleDisplayFrame w r)) = calls w"
  by (simp_all add: glfmGetWindowVisibleDisplayFrame_def Let_def case_prod_beta)

lemma keyboard_frame [simp]:
  "animating (glfmUpdateKeyboardVisibility w) = animating w"
  "hasInited (glfmUpdateKeyboardVisibility w) = hasInited w"
  "display (glfmUpdateKeyboardVisibility w) = display w"
  "width (glfmUpdateKeyboardVisibility w) = width w"
  "height (glfmUpdateKeyboardVisibility w) = height w"
  by (simp_all add: glfmUpdateKeyboardVisibility_def Let_def case_prod_beta)

lemma keyboard_resizedCalls [simp]:
  "resizedCalls (calls (glfmUpdateKeyboardVisibility w)) = resizedCalls (calls w)"
  by (simp add: glfmUpdateKeyboardVisibility_def Let_def case_prod_beta)

lemma visibleFrame_waitFrames [simp]:
  "resizeEventWaitFrames (snd (glfmGetDecorView w)) = resizeEventWaitFrames w"
  "resizeEventWaitFrames (snd (glfmGetWindowVisibleDisplayFrame w r)) = resizeEventWaitFrames w"
  by (simp_all add: glfmGetWindowVisibleDisplayFrame_def glfmGetDecorView_def Let_def
      case_prod_beta)

lemma keyboard_waitFrames [simp]:
  "resizeEventWaitFrames (glfmUpdateKeyboardVisibility w) = resizeEventWaitFrames w"
  by (simp add: glfmUpdateKeyboardVisibility_def Let_def case_prod_beta)

lemma onAppCmd_animating:
  "animating (glfmOnAppCmd w c) =
    (if c = APP_CMD_GAINED_FOCUS then True
     else if c = APP_CMD_LOST_FOCUS \<or> c = APP_CMD_TERM_WINDOW then False
     else animating w)"
  by (cases c) (simp_all add: Let_def case_prod_beta)


lemma updateSize_calls:
  "\<exists>cs. calls (glfmUpdateSurfaceSizeIfNeeded w f) = calls w @ cs
     \<and> RenderCall \<notin> set cs \<and> SurfaceRefreshCall \<notin> set cs"
  by (simp add: glfmUpdateSurfaceSizeIfNeeded_def Let_def case_prod_beta reportOrientation_calls)

lemma updateSize_step:
  assumes "env w = lw # lh # rest"
  shows "resizedCalls (calls (glfmUpdateSurfaceSizeIfNeeded w force)) =
           resizedCalls (calls w) @
             (if (lw \<noteq> width w \<or> lh \<noteq> height w) \<and> (force \<or> resizeEventWaitFrames w \<le> 0)
                 \<and> surfaceResizedFunc (display w)
              then [(lw, lh)] else [])"
    and "resizeEventWaitFrames (glfmUpdateSurfaceSizeIfNeeded w force) =
           (if lw \<noteq> width w \<or> lh \<noteq> height w
            then (if force \<or> resizeEventWaitFrames w \<le> 0 then RESIZE_EVENT_MAX_WAIT_FRAMES
                  else resizeEventWaitFrames w - 1)
            else resizeEventWaitFrames w)"
    and "width (glfmUpdateSurfaceSizeIfNeeded w force) =
           (if (lw \<noteq> width w \<or> lh \<noteq> height w) \<and> (force \<or> resizeEventWaitFrames w \<le> 0)
            then lw else width w)"
    and "height (glfmUpdateSurfaceSizeIfNeeded w force) =
           (if (lw \<noteq> width w \<or> lh \<noteq> height w) \<and> (force \<or> resizeEventWaitFrames w \<le> 0)
            then lh else height w)"
  using assms
  by (simp_all add: glfmUpdateSurfaceSizeIfNeeded_def envNext_Cons Let_def)

lemma updateSize_live:
  "resizedCalls (calls (glfmUpdateSurfaceSizeIfNeeded w force)) =
     resizedCalls (calls w) @
       (if (fst (liveSize w) \<noteq> width w \<or> snd (liveSize w) \<noteq> height w)
           \<and> (force \<or> resizeEventWaitFrames w \<le> 0) \<and> surfaceResizedFunc (display w)
        then [liveSize w] else [])"
  "resizeEventWaitFrames (glfmUpdateSurfaceSizeIfNeeded w force) =
     (if fst (liveSize w) \<noteq> width w \<or> snd (liveSize w) \<noteq> height w
      then (if force \<or> resizeEventWaitFrames w \<le> 0 then RESIZE_EVENT_MAX_WAIT_FRAMES
            else resizeEventWaitFrames w - 1)
      else resizeEventWaitFrames w)"
  by (simp_all add: glfmUpdateSurfaceSizeIfNeeded_def liveSize_def Let_def case_prod_beta)

lemma drawFrame_resize:
  "resizedCalls (calls (glfmDrawFrame w)) =
     (if eglContextCurrent w then resizedCalls (calls (glfmUpdateSurfaceSizeIfNeeded w False))
      else resizedCalls (calls w))"
  "resizeEventWaitFrames (glfmDrawFrame w) =
     (if eglContextCurrent w then resizeEventWaitFrames (glfmUpdateSurfaceSizeIfNeeded w False)
      else resizeEventWaitFrames w)"
  "width (glfmDrawFrame w) =
     (if eglContextCurrent w then width (glfmUpdateSurfaceSizeIfNeeded w False) else width w)"
  "height (glfmDrawFrame w) =
     (if eglContextCurrent w then height (glfmUpdateSurfaceSizeIfNeeded w False) else height w)"
  by (simp_all add: glfmDrawFrame_def Let_def)

lemma drawFrame_counted:
  "0 < resizeEventWaitFrames w \<or> \<not> frameObservesChange w \<Longrightarrow>
   resizedCalls (calls (glfmDrawFrame w)) = resizedCalls (calls w)
   \<and> resizeEventWaitFrames (glfmDrawFrame w) =
       resizeEventWaitFrames w - (if frameObservesChange w then 1 else 0)"
  by (auto simp: drawFrame_resize updateSize_live frameObservesChange_def)

lemma frames_counted:
  "int (changedFrames n w) \<le> resizeEventWaitFrames w \<Longrightarrow>
   resizedCalls (calls ((glfmDrawFrame ^^ n) w)) = resizedCalls (calls w)
   \<and> resizeEventWaitFrames ((glfmDrawFrame ^^ n) w) =
       resizeEventWaitFrames w - int (changedFrames n w)"
proof (induction n arbitrary: w)
  case 0
  then show ?case by simp
next
  case (Suc n)
  have pos: "0 < resizeEventWaitFrames w \<or> \<not> frameObservesChange w"
    using Suc.prems by (cases "frameObservesChange w") simp_all
  note step = drawFrame_counted[OF pos]
  have "int (changedFrames n (glfmDrawFrame w)) \<le> resizeEventWaitFrames (glfmDrawFrame w)"
    using Suc.prems step by (simp split: if_splits)
  from Suc.IH[OF this] step show ?case
    by (simp add: funpow_swap1 split: if_splits)
qed

lemma changedFrames_le: "changedFrames n w \<le> n"
proof (induction n arbitrary: w)
  case 0
  then show ?case by simp
next
  case (Suc n)
  show ?case using Suc[of "glfmDrawFrame w"] by simp
qed



lemma snoc_eq_split:
  "c \<noteq> g \<Longrightarrow> (cs @ [c] = pre @ g # post) \<longleftrightarrow> (\<exists>post'. post = post' @ [c] \<and> cs = pre @ g # post')"
  by (cases post rule: rev_cases) auto

lemma run_animating:
  "animating (foldl glfmOnAppCmd w cmds) \<longleftrightarrow>
     (animating w \<and> APP_CMD_LOST_FOCUS \<notin> set cmds \<and> APP_CMD_TERM_WINDOW \<notin> set cmds) \<or>
     (\<exists>pre post. cmds = pre @ APP_CMD_GAINED_FOCUS # post
        \<and> APP_CMD_LOST_FOCUS \<notin> set post \<and> APP_CMD_TERM_WINDOW \<notin> set post)"
proof (induction cmds rule: rev_induct)
  case Nil
  then show ?case by simp
next
  case (snoc c cs)
  let ?held = "\<lambda>cmds. \<exists>pre post. cmds = pre @ APP_CMD_GAINED_FOCUS # post
        \<and> APP_CMD_LOST_FOCUS \<notin> set post \<and> APP_CMD_TERM_WINDOW \<notin> set post"
  consider (gained) "c = APP_CMD_GAINED_FOCUS"
    | (lost) "c = APP_CMD_LOST_FOCUS \<or> c = APP_CMD_TERM_WINDOW"
    | (other) "c \<noteq> APP_CMD_GAINED_FOCUS" "c \<noteq> APP_CMD_LOST_FOCUS" "c \<noteq> APP_CMD_TERM_WINDOW"
    by blast
  then show ?case
  proof cases
    case gained
    have "?held (cs @ [c])" using gained by (intro exI[of _ cs] exI[of _ "[]"]) simp
    then show ?thesis using gained by (simp add: onAppCmd_animating)
  next
    case lost
    then have ne: "c \<noteq> APP_CMD_GAINED_FOCUS" by auto
    have "\<not> ?held (cs @ [c])" using lost by (auto simp: snoc_eq_split[OF ne])
    then show ?thesis using lost by (auto simp: onAppCmd_animating)
  next
    case other
    have "?held (cs @ [c]) \<longleftrightarrow> ?held cs"
    proof
      assume "?held (cs @ [c])"
      then obtain pre post where e: "cs @ [c] = pre @ APP_CMD_GAINED_FOCUS # post"
        and n: "APP_CMD_LOST_FOCUS \<notin> set post" "APP_CMD_TERM_WINDOW \<notin> set post"
        by blast
      from e obtain post' where p: "post = post' @ [c]" "cs = pre @ APP_CMD_GAINED_FOCUS # post'"
        using snoc_eq_split[OF other(1)] by blast
      have "APP_CMD_LOST_FOCUS \<notin> set post'" "APP_CMD_TERM_WINDOW \<notin> set post'"
        using n p(1) by auto
      then show "?held cs" using p(2) by blast
    next
      assume "?held cs"
      then obtain pre post where e: "cs = pre @ APP_CMD_GAINED_FOCUS # post"
        and n: "APP_CMD_LOST_FOCUS \<notin> set post" "APP_CMD_TERM_WINDOW \<notin> set post"
        by blast
      have "cs @ [c] = pre @ APP_CMD_GAINED_FOCUS # (post @ [c])" using e by simp
      moreover have "APP_CMD_LOST_FOCUS \<notin> set (post @ [c])"
        "APP_CMD_TERM_WINDOW \<notin> set (post @ [c])"
        using n other by auto
      ultimately show "?held (cs @ [c])" by blast
    qed
    then show ?thesis using other snoc.IH by (simp add: onAppCmd_animating)
  qed
qed

lemma destroyThread_animating: "\<not> animating (destroyThread w)"
  by (simp add: destroyThread_def Let_def)

lemma android_main_commands_destroy:
  "APP_CMD_DESTROY \<in> set cmds \<Longrightarrow> \<not> animating (android_main_commands w cmds)"
  by (induction cmds arbitrary: w) (auto simp: destroyThread_animating)

lemma android_main_commands_foldl:
  "APP_CMD_DESTROY \<notin> set cmds \<Longrightarrow> android_main_commands w cmds = foldl glfmOnAppCmd w cmds"
  by (induction cmds arbitrary: w) auto

section \<open>Lemmas: touch, text, keyboard and refresh rate\<close>

lemma touchPointer_calls:
  "calls (touchPointer m ev ph w i) = calls w @
     (if 0 \<le> pointerId ev i \<and> pointerId ev i < m
      then [TouchCall (pointerId ev i) ph (pointerX ev i) (pointerY ev i)] else [])"
  by (simp add: touchPointer_def Let_def)

lemma foldl_touchPointer_calls:
  "calls (foldl (touchPointer m ev ph) w is) = calls w @
     map (\<lambda>i. TouchCall (pointerId ev i) ph (pointerX ev i) (pointerY ev i))
       (filter (\<lambda>i. 0 \<le> pointerId ev i \<and> pointerId ev i < m) is)"
  by (induction "is" arbitrary: w) (simp_all add: touchPointer_calls)

lemma motionEventTouch_calls:
  "calls (motionEventTouch w ev) = calls w @
     (if touchFunc (display w)
      then deliveredTouches (if multitouchEnabled w then MAX_SIMULTANEOUS_TOUCHES else 1) ev
      else [])"
  by (simp add: motionEventTouch_def deliveredTouches_def touchPointerIndices_def Let_def
      foldl_touchPointer_calls touchPointer_calls
      AMOTION_EVENT_ACTION_MASK_def AMOTION_EVENT_ACTION_POINTER_INDEX_MASK_def
      AMOTION_EVENT_ACTION_POINTER_INDEX_SHIFT_def split: option.splits)

lemma deliveredTouches_range:
  "TouchCall n ph x y \<in> set (deliveredTouches m ev) \<Longrightarrow> 0 \<le> n \<and> n < m"
  by (auto simp: deliveredTouches_def split: option.splits)

lemma or_above_nat:
  fixes x :: nat
  assumes "x < 2 ^ k"
  shows "push_bit k a OR x = push_bit k a + x"
proof -
  have "push_bit k a + take_bit k x = push_bit k a OR take_bit k x"
    by (rule disjunctive_add) (auto simp: bit_simps)
  moreover have "take_bit k x = x" using assms by (simp add: take_bit_nat_eq_self)
  ultimately show ?thesis by simp
qed

lemma lead_C0: "x < 32 \<Longrightarrow> (0xC0::nat) OR x = 0xC0 + x"
  using or_above_nat[of x 6 3] by simp

lemma lead_E0: "x < 16 \<Longrightarrow> (0xE0::nat) OR x = 0xE0 + x"
  using or_above_nat[of x 5 7] by simp

lemma lead_F0: "x < 8 \<Longrightarrow> (0xF0::nat) OR x = 0xF0 + x"
  using or_above_nat[of x 4 15] by simp

lemma and_3f: "(y::nat) AND 0x3f = y mod 64"
proof -
  have "y AND mask 6 = take_bit 6 y" by (simp add: take_bit_eq_mask)
  then show ?thesis by (simp add: take_bit_eq_mod mask_eq_exp_minus_1)
qed

lemma cont_80: "(0x80::nat) OR (y AND 0x3f) = 0x80 + y mod 64"
  using or_above_nat[of "y mod 64" 7 1] by (simp add: and_3f)

lemma unat_byte:
  fixes x :: "32 word"
  shows "unat (ucast x :: 8 word) = unat x mod 256"
  by (simp add: unsigned_ucast_eq take_bit_eq_mod)

lemma byte_cont:
  fixes x :: "32 word"
  shows "unat (ucast (0x80 OR (x AND 0x3f)) :: 8 word) = 0x80 + unat x mod 64"
proof -
  have "unat (0x80 OR (x AND 0x3f)) = 0x80 OR (unat x AND 0x3f)"
    by (simp only: unsigned_or_eq unsigned_and_eq unsigned_numeral) simp
  then have "unat (0x80 OR (x AND 0x3f)) = 0x80 + unat x mod 64"
    by (simp only: cont_80)
  moreover have "unat x mod 64 < 64" by simp
  ultimately show ?thesis by (simp only: unat_byte) simp
qed

lemma byte_lead:
  fixes x :: "32 word"
  shows "unat x < 32 \<Longrightarrow> unat (ucast (0xc0 OR x) :: 8 word) = 0xC0 + unat x"
    and "unat x < 16 \<Longrightarrow> unat (ucast (0xe0 OR x) :: 8 word) = 0xE0 + unat x"
    and "unat x < 8 \<Longrightarrow> unat (ucast (0xf0 OR x) :: 8 word) = 0xF0 + unat x"
proof -
  have o: "unat (0xc0 OR x) = 0xC0 OR unat x" "unat (0xe0 OR x) = 0xE0 OR unat x"
    "unat (0xf0 OR x) = 0xF0 OR unat x"
    by (simp_all only: unsigned_or_eq unsigned_numeral) simp_all
  show "unat x < 32 \<Longrightarrow> unat (ucast (0xc0 OR x) :: 8 word) = 0xC0 + unat x"
    by (simp only: unat_byte o lead_C0) simp
  show "unat x < 16 \<Longrightarrow> unat (ucast (0xe0 OR x) :: 8 word) = 0xE0 + unat x"
    by (simp only: unat_byte o lead_E0) simp
  show "unat x < 8 \<Longrightarrow> unat (ucast (0xf0 OR x) :: 8 word) = 0xF0 + unat x"
    by (simp only: unat_byte o lead_F0) simp
qed

lemma byte_ascii:
  fixes u :: "32 word"
  shows "unat u < 128 \<Longrightarrow> unat (ucast (u AND 0x7f) :: 8 word) = unat u"
proof -
  assume a: "unat u < 128"
  have "unat u AND mask 7 = take_bit 7 (unat u)" by (simp add: take_bit_eq_mask)
  then have "unat u AND 0x7f = unat u" using a by (simp add: take_bit_nat_eq_self mask_eq_exp_minus_1)
  moreover have "unat (u AND 0x7f) = unat u AND 0x7f"
    by (simp only: unsigned_and_eq unsigned_numeral) simp
  ultimately show ?thesis using a by (simp only: unat_byte) simp
qed

lemma unat_shift:
  fixes u :: "32 word"
  shows "unat (drop_bit 6 u) = unat u div 64" "unat (drop_bit 12 u) = unat u div 4096"
    "unat (drop_bit 18 u) = unat u div 262144"
  by (simp_all add: drop_bit_eq_div unat_div_distrib)

lemma utf8_bytes:
  fixes u :: "32 word"
  assumes "u < 0x110000"
  shows "map unat (glfmUnicodeToUTF8 u) = utf8_standard (unat u) @ [0]"
proof -
  have n: "unat u < 0x110000" using assms by (simp add: word_less_nat_alt)
  have c: "(u < 0x80) = (unat u < 0x80)" "(u < 0x800) = (unat u < 0x800)"
    "(u < 0x10000) = (unat u < 0x10000)"
    by (simp_all add: word_less_nat_alt)
  consider (one) "unat u < 0x80" | (two) "0x80 \<le> unat u" "unat u < 0x800"
    | (three) "0x800 \<le> unat u" "unat u < 0x10000" | (four) "0x10000 \<le> unat u"
    by linarith
  then show ?thesis
  proof cases
    case one
    then show ?thesis
      by (simp add: glfmUnicodeToUTF8_def utf8_standard_def c byte_ascii)
  next
    case two
    have "unat (drop_bit 6 u) < 32" using two by (simp add: unat_shift)
    then show ?thesis using two
      by (simp add: glfmUnicodeToUTF8_def utf8_standard_def c byte_cont byte_lead unat_shift)
  next
    case three
    have "unat (drop_bit 12 u) < 16" using three by (simp add: unat_shift)
    then show ?thesis using three
      by (simp add: glfmUnicodeToUTF8_def utf8_standard_def c byte_cont byte_lead unat_shift)
  next
    case four
    have "unat (drop_bit 18 u) < 8" using n by (simp add: unat_shift)
    then show ?thesis using four assms
      by (simp add: glfmUnicodeToUTF8_def utf8_standard_def c byte_cont byte_lead unat_shift)
  qed
qed

lemma utf8_standard_nonzero: "0x20 \<le> c \<Longrightarrow> 0 \<notin> set (utf8_standard c)"
  by (simp add: utf8_standard_def)

lemma cString_utf8:
  fixes u :: "32 word"
  assumes "0x20 \<le> u" "u < 0x110000"
  shows "map unat (cString (glfmUnicodeToUTF8 u)) = utf8_standard (unat u)"
proof -
  have "0x20 \<le> unat u" using assms(1) by (simp add: word_le_nat_alt)
  then have z: "0 \<notin> set (utf8_standard (unat u))" by (rule utf8_standard_nonzero)
  have "map unat (cString (glfmUnicodeToUTF8 u)) =
          takeWhile (\<lambda>b. b \<noteq> 0) (map unat (glfmUnicodeToUTF8 u))"
    by (simp add: cString_def takeWhile_map comp_def unat_gt_0)
  also have "\<dots> = takeWhile (\<lambda>b. b \<noteq> 0) (utf8_standard (unat u) @ [0])"
    by (simp only: utf8_bytes[OF assms(2)])
  also have "\<dots> = utf8_standard (unat u)"
  proof -
    have "0 < x" if "x \<in> set (utf8_standard (unat u))" for x
      using z that by (cases "x = 0") auto
    then show ?thesis by simp
  qed
  finally show ?thesis .
qed

lemma invokeKeyFunc_frame [simp]:
  "display (snd (invokeKeyFunc k a w)) = display w"
  "charCalls (calls (snd (invokeKeyFunc k a w))) = charCalls (calls w)"
  by (simp_all add: invokeKeyFunc_def Let_def case_prod_beta)

lemma keyMultiple_frame [simp]:
  "display (snd (keyMultiple n k (h, w))) = display w"
  "charCalls (calls (snd (keyMultiple n k (h, w)))) = charCalls (calls w)"
  by (induction n arbitrary: h w; simp add: Let_def case_prod_beta)+

lemma handleBack_frame [simp]:
  "display (snd (glfmHandleBackButton w)) = display w"
  "calls (snd (glfmHandleBackButton w)) = calls w"
  by (simp_all add: glfmHandleBackButton_def Let_def case_prod_beta)

lemma keyEventKey_frame [simp]:
  "display (snd (keyEventKey w ev)) = display w"
  "charCalls (calls (snd (keyEventKey w ev))) = charCalls (calls w)"
  by (simp_all add: keyEventKey_def Let_def case_prod_beta)

lemma getUnicodeChar_frame [simp]:
  "display (snd (glfmGetUnicodeChar w)) = display w"
  "calls (snd (glfmGetUnicodeChar w)) = calls w"
  by (simp_all add: glfmGetUnicodeChar_def Let_def case_prod_beta)

lemma invoke_funpow_calls: "calls ((invoke c ^^ n) w) = calls w @ replicate n c"
  by (induction n) (simp_all add: replicate_append_same)

lemma charCalls_replicate [simp]: "charCalls (replicate n (CharCall str)) = replicate n str"
  by (induction n) simp_all

lemma keyEventChar_calls:
  "charCalls (calls (keyEventChar w ev)) = charCalls (calls w) @
     (if charFunc (display w) \<and> 0x20 \<le> fst (glfmGetUnicodeChar w)
      then (if keyAction ev = AKEY_EVENT_ACTION_DOWN
            then [cString (glfmUnicodeToUTF8 (fst (glfmGetUnicodeChar w)))]
            else if keyAction ev = AKEY_EVENT_ACTION_MULTIPLE
            then replicate (nat (repeatCount ev)) (cString (glfmUnicodeToUTF8 (fst (glfmGetUnicodeChar w))))
            else [])
      else [])"
  by (simp add: keyEventChar_def Let_def case_prod_beta invoke_funpow_calls)

lemma ARectsEqual_iff: "ARectsEqual r1 r2 \<longleftrightarrow> r1 = r2"
  by (cases r1; cases r2) (auto simp: ARectsEqual_def)

lemma int32_id: "\<bar>x\<bar> < 2 ^ 31 \<Longrightarrow> int32 x = x"
  by (simp add: int32_def)

text \<open>The exponent is that of the leading bit, and \<open>pow2\<close> the power of 2.\<close>

lemma binaryExponent_floor: "0 < x \<Longrightarrow> binaryExponent x = \<lfloor>log 2 x\<rfloor>"
proof (induction x rule: binaryExponent.induct)
  case (1 x)
  show ?case
  proof (cases "2 \<le> x")
    case True
    have "log 2 (x / 2) = log 2 x - 1" using 1(3) by (simp add: log_divide)
    then show ?thesis using 1 True by (subst binaryExponent.simps) simp
  next
    case False
    show ?thesis
    proof (cases "x < 1")
      case True
      have "log 2 (2 * x) = 1 + log 2 x" using 1(3) by (simp add: log_mult)
      then show ?thesis using 1 True False by (subst binaryExponent.simps) simp
    next
      case f: False
      then have "0 \<le> log 2 x" "log 2 x < 1" using False 1(3) by (simp_all add: log_less_iff)
      then have "\<lfloor>log 2 x\<rfloor> = 0" by (simp add: floor_eq_iff)
      then show ?thesis using 1 False f by (subst binaryExponent.simps) simp
    qed
  qed
qed

lemma pow2_powr: "pow2 e = 2 powr of_int e"
  by (simp add: pow2_def powr_real_of_int divide_inverse)

text \<open>
  Values of the arithmetic on doubles: the double nearest to one tenth; the scale of a
  screen of density 192, the double nearest to 1.2, which is below it, and its threshold
  120; the threshold 114 of density 184; the scale 6 of density 960.
\<close>

lemma roundToDouble_tenth: "roundToDouble (1 / 10) = 3602879701896397 / 36028797018963968"
  by code_simp

lemma displayScale_192: "displayScale 192 = 5404319552844595 / 4503599627370496"
  by code_simp

lemma minimumKeyboardSize_192: "minimumKeyboardSize (startData\<lparr>scale := displayScale 192\<rparr>) = 120"
  by code_simp

lemma minimumKeyboardSize_184: "minimumKeyboardSize (startData\<lparr>scale := displayScale 184\<rparr>) = 114"
  by code_simp

lemma displayScale_960: "displayScale 960 = 6"
  by code_simp

lemma largestRound_fits:
  "bandFits (rs ! i) \<Longrightarrow>
   largestRound m rs la i =
     (if bandEligible m (rs ! i) \<and> snd la < bandArea (rs ! i) then (i, bandArea (rs ! i)) else la)"
  by (simp add: largestRound_def bandFits_def bandEligible_def bandArea_def int32_id Let_def)

lemma largestRound_fold:
  "\<forall>i \<in> set is. bandFits (rs ! i) \<Longrightarrow>
   foldl (largestRound m rs) (li, la) is = (li', la') \<Longrightarrow>
     la \<le> la'
     \<and> ((li', la') = (li, la)
          \<or> (li' \<in> set is \<and> bandEligible m (rs ! li') \<and> la' = bandArea (rs ! li')))
     \<and> (\<forall>i \<in> set is. bandEligible m (rs ! i) \<longrightarrow> bandArea (rs ! i) \<le> la')"
proof (induction "is" arbitrary: li la)
  case Nil
  then show ?case by simp
next
  case (Cons i "is")
  obtain li1 la1 where step: "largestRound m rs (li, la) i = (li1, la1)"
    by (cases "largestRound m rs (li, la) i")
  have f: "bandFits (rs ! i)" using Cons.prems(1) by simp
  have s: "la \<le> la1"
    "(li1, la1) = (li, la) \<or> (li1 = i \<and> bandEligible m (rs ! i) \<and> la1 = bandArea (rs ! i))"
    "bandEligible m (rs ! i) \<longrightarrow> bandArea (rs ! i) \<le> la1"
    using step by (auto simp: largestRound_fits[OF f] split: if_splits)
  have r: "\<forall>i \<in> set is. bandFits (rs ! i)" using Cons.prems(1) by simp
  have "foldl (largestRound m rs) (li1, la1) is = (li', la')"
    using Cons.prems(2) step by simp
  from Cons.IH[OF r this] s show ?case by auto
qed

lemma bands_nth:
  "set (nonVisibleRects a b) = (\<lambda>i. nonVisibleRects a b ! i) ` set [0..<4]"
proof -
  have "length (nonVisibleRects a b) = 4" by (simp add: nonVisibleRects_def)
  then show ?thesis by (metis map_nth set_map)
qed

lemma keyboard_result:
  assumes "foldl (largestRound (minimumKeyboardSize w) (keyboardBands w)) (0, -1) [0..<4] = (li, la)"
  shows "keyboardVisible (glfmUpdateKeyboardVisibility w) = (0 < la)"
    and "keyboardFrame (glfmUpdateKeyboardVisibility w) =
           (if 0 < la then keyboardBands w ! li else zeroRect)"
    and "calls (glfmUpdateKeyboardVisibility w) = calls w @
           (if (keyboardVisible (glfmUpdateKeyboardVisibility w) \<noteq> keyboardVisible w
                 \<or> keyboardFrame (glfmUpdateKeyboardVisibility w) \<noteq> keyboardFrame w)
                \<and> keyboardVisibilityChangedFunc (display w)
            then [KeyboardVisibilityChangedCall (keyboardVisible (glfmUpdateKeyboardVisibility w))
                    (left (keyboardFrame (glfmUpdateKeyboardVisibility w)))
                    (top (keyboardFrame (glfmUpdateKeyboardVisibility w)))
                    (int32 (right (keyboardFrame (glfmUpdateKeyboardVisibility w))
                       - left (keyboardFrame (glfmUpdateKeyboardVisibility w))))
                    (int32 (bottom (keyboardFrame (glfmUpdateKeyboardVisibility w))
                       - top (keyboardFrame (glfmUpdateKeyboardVisibility w))))]
            else [])"
  using assms
  by (auto simp: glfmUpdateKeyboardVisibility_def keyboardBands_def minimumKeyboardSize_def
      Let_def case_prod_beta ARectsEqual_iff zeroRect_def)

lemma keyboardData_visibleFrame:
  "fst (glfmGetWindowVisibleDisplayFrame (keyboardData b) r)
     = \<lparr>left = 0, top = 0, right = 1000, bottom = b\<rparr>"
  by (simp add: keyboardData_def glfmGetWindowVisibleDisplayFrame_def glfmGetDecorView_def
      envNext_def Let_def)

lemma keyboardData_fields:
  "contentRect (keyboardData b) = \<lparr>left = 0, top = 0, right = 1000, bottom = 2000\<rparr>"
  "minimumKeyboardSize (keyboardData b) = 100"
  "calls (keyboardData b) = []"
  "keyboardVisible (keyboardData b) = False"
  "keyboardFrame (keyboardData b) = zeroRect"
  "keyboardVisibilityChangedFunc (display (keyboardData b))"
  by code_simp+

lemma keyboardData_bands:
  "keyboardBands (keyboardData b) =
     [\<lparr>left = 0, top = 0, right = 0, bottom = 2000\<rparr>,
      \<lparr>left = 1000, top = 0, right = 1000, bottom = 2000\<rparr>,
      \<lparr>left = 0, top = 0, right = 1000, bottom = 0\<rparr>,
      \<lparr>left = 0, top = b, right = 1000, bottom = 2000\<rparr>]"
  by (simp add: keyboardBands_def keyboardData_visibleFrame keyboardData_fields
      nonVisibleRects_def)

lemma denseKeyboardData_fields:
  "minimumKeyboardSize denseKeyboardData = 600"
  "keyboardBands denseKeyboardData = keyboardBands (keyboardData 1500)"
  by code_simp+

lemma hugeKeyboardData_fields:
  "minimumKeyboardSize hugeKeyboardData = 100"
  "keyboardBands hugeKeyboardData =
     [\<lparr>left = 0, top = 0, right = 0, bottom = 100000\<rparr>,
      \<lparr>left = 50000, top = 0, right = 50000, bottom = 100000\<rparr>,
      \<lparr>left = 0, top = 0, right = 50000, bottom = 0\<rparr>,
      \<lparr>left = 0, top = 50000, right = 50000, bottom = 100000\<rparr>]"
  by code_simp+

text \<open>The loop on the bands of the concrete runs.\<close>

lemma keyboardData_1900_fold:
  "foldl (largestRound (minimumKeyboardSize (keyboardData 1900)) (keyboardBands (keyboardData 1900)))
     (0, -1) [0..<4] = (3, 100000)"
  by code_simp

lemma denseKeyboardData_fold:
  "foldl (largestRound (minimumKeyboardSize denseKeyboardData) (keyboardBands denseKeyboardData))
     (0, -1) [0..<4] = (0, -1)"
  by code_simp

lemma hugeKeyboardData_fold:
  "foldl (largestRound (minimumKeyboardSize hugeKeyboardData) (keyboardBands hugeKeyboardData))
     (0, -1) [0..<4] = (0, -1)"
  by code_simp

lemma envNextFloat_Cons: "envFloat w = v # vs \<Longrightarrow> envNextFloat w = (v, w\<lparr>envFloat := vs\<rparr>)"
  by (simp add: envNextFloat_def)

lemma refreshRate_value:
  "fst (glfmGetRefreshRate w) = JFloat 60 \<or> \<not> jfloat_le_zero (fst (glfmGetRefreshRate w))"
  by (simp add: glfmGetRefreshRate_def Let_def case_prod_beta)

lemma refreshRate_chain:
  assumes "env w = window # e1 # windowManager # e2 # windowDisplay # e3 # e4 # rest"
    and "envFloat w = rate # frest"
  shows "fst (glfmGetRefreshRate w) =
     (if window \<noteq> 0 \<and> e1 = 0 \<and> windowManager \<noteq> 0 \<and> e2 = 0 \<and> windowDisplay \<noteq> 0 \<and> e3 = 0
         \<and> e4 = 0 \<and> \<not> jfloat_le_zero rate
      then rate else JFloat 60)"
  using assms
  by (simp add: glfmGetRefreshRate_def envNext_Cons envNextFloat_Cons Let_def)

section \<open>The claims\<close>

text \<open>
  C1. Along every execution, the surface-created callback is invoked at most once per EGL
  context lifetime, every render callback for a context is preceded by that context's
  surface-created callback, and the surface-destroyed callback is invoked exactly once per
  context teardown, before the surface-created callback of any re-creation.

  The code does not keep the second part. \<open>_glfmEGLContextInit\<close> remembers that it created
  the context in the local variable \<open>created\<close> and returns early when \<open>eglMakeCurrent\<close>
  fails, before the surface-created callback. When the error is \<open>EGL_BAD_SURFACE\<close>,
  \<open>_glfmEGLCheckError\<close> recreates the surface only; the next window-init finds the context
  in place, binds it and draws. In the run \<open>failedBindData\<close> the embedder is asked to
  refresh and render without ever having been told that the surface was created, and on
  destroy it is told that the surface was destroyed.
\<close>

theorem surface_created_lost_after_failed_bind:
  "surfaceCreatedFunc (display failedBindData)
   \<and> calls (foldl glfmOnAppCmd failedBindData [APP_CMD_INIT_WINDOW]) = []
   \<and> eglContext (foldl glfmOnAppCmd failedBindData [APP_CMD_INIT_WINDOW]) = 3
   \<and> calls (foldl glfmOnAppCmd failedBindData
        [APP_CMD_INIT_WINDOW, APP_CMD_TERM_WINDOW, APP_CMD_INIT_WINDOW])
       = [SurfaceRefreshCall, RenderCall]
   \<and> calls (foldl glfmOnAppCmd failedBindData
        [APP_CMD_INIT_WINDOW, APP_CMD_TERM_WINDOW, APP_CMD_INIT_WINDOW, APP_CMD_DESTROY])
       = [SurfaceRefreshCall, RenderCall, SurfaceDestroyedCall]"
  by code_simp

text \<open>
  For comparison, the first window whose context is bound at once: the surface-created
  callback comes first, with the size of the surface.
\<close>

lemma surface_created_before_first_render:
  "calls (foldl glfmOnAppCmd firstBindData [APP_CMD_INIT_WINDOW])
     = [SurfaceCreatedCall 640 480, SurfaceRefreshCall, RenderCall]"
  by code_simp

text \<open>
  C2. For every call of the frame-drawing routine, the render and refresh callbacks are
  invoked only if the context-current flag is true; when the flag is false the routine
  returns without invoking any callback (it returns the state as it found it). With the
  flag true and a render callback registered, the render callback is invoked.
\<close>

theorem drawFrame_callbacks_need_current_context:
  "(\<not> eglContextCurrent w \<longrightarrow> glfmDrawFrame w = w) \<and>
   (\<exists>cs. calls (glfmDrawFrame w) = calls w @ cs
      \<and> ((RenderCall \<in> set cs \<or> SurfaceRefreshCall \<in> set cs) \<longrightarrow> eglContextCurrent w)
      \<and> (eglContextCurrent w \<and> renderFunc (display w) \<longrightarrow> RenderCall \<in> set cs))"
proof (cases "eglContextCurrent w")
  case False
  then show ?thesis by (simp add: glfmDrawFrame_def)
next
  case True
  obtain cs where cs: "calls (glfmUpdateSurfaceSizeIfNeeded w False) = calls w @ cs"
    using updateSize_calls by blast
  show ?thesis using True
    by (simp add: glfmDrawFrame_def Let_def cs)
qed

theorem drawFrame_callbacks_need_current_context_witness:
  "\<not> eglContextCurrent startData \<and> glfmDrawFrame startData = startData
   \<and> eglContextCurrent resizingData \<and> renderFunc (display resizingData)
   \<and> (\<exists>cs. calls (glfmDrawFrame resizingData) = calls resizingData @ cs \<and> RenderCall \<in> set cs)"
proof -
  have a: "\<not> eglContextCurrent startData"
    by (simp add: startData_def android_main_init_def)
  have b: "eglContextCurrent resizingData" "renderFunc (display resizingData)"
    by (simp_all add: resizingData_def startData_def android_main_init_def plainDisplay_def)
  from drawFrame_callbacks_need_current_context[of startData] a
  have "glfmDrawFrame startData = startData" by blast
  moreover from drawFrame_callbacks_need_current_context[of resizingData] b
  have "\<exists>cs. calls (glfmDrawFrame resizingData) = calls resizingData @ cs \<and> RenderCall \<in> set cs"
    by blast
  ultimately show ?thesis using a b by blast
qed

text \<open>
  C3, as amended. For all sequences of lifecycle commands processed from a state that is not
  animating (the initial state is one), the animating flag is true afterwards only if a
  gained-focus command has been processed and no lost-focus or window-terminated command
  has been processed after it: focus is held. A window-init command is not required; the
  code keeps no record of it. The statement is made of the commands handed to
  \<open>_glfmOnAppCmd\<close> one after the other, and of the commands of a call of \<open>android_main\<close>,
  which clears the flag when it is asked to destroy the thread: there no destroy command
  has been processed after the gained-focus command either.
\<close>

theorem animating_only_if_focus_held:
  "\<not> animating w \<Longrightarrow>
   (animating (foldl glfmOnAppCmd w cmds) \<longrightarrow>
      (\<exists>pre post. cmds = pre @ APP_CMD_GAINED_FOCUS # post
         \<and> APP_CMD_LOST_FOCUS \<notin> set post \<and> APP_CMD_TERM_WINDOW \<notin> set post))
   \<and> (animating (android_main_commands w cmds) \<longrightarrow>
      (\<exists>pre post. cmds = pre @ APP_CMD_GAINED_FOCUS # post
         \<and> APP_CMD_LOST_FOCUS \<notin> set post \<and> APP_CMD_TERM_WINDOW \<notin> set post
         \<and> APP_CMD_DESTROY \<notin> set post))"
proof -
  assume n: "\<not> animating w"
  have held: "\<exists>pre post. cmds = pre @ APP_CMD_GAINED_FOCUS # post
         \<and> APP_CMD_LOST_FOCUS \<notin> set post \<and> APP_CMD_TERM_WINDOW \<notin> set post"
    if "animating (foldl glfmOnAppCmd w cmds)"
    using that n by (simp add: run_animating)
  have main: "\<exists>pre post. cmds = pre @ APP_CMD_GAINED_FOCUS # post
         \<and> APP_CMD_LOST_FOCUS \<notin> set post \<and> APP_CMD_TERM_WINDOW \<notin> set post
         \<and> APP_CMD_DESTROY \<notin> set post"
    if a: "animating (android_main_commands w cmds)"
  proof -
    have d: "APP_CMD_DESTROY \<notin> set cmds"
      using a android_main_commands_destroy[of cmds w] by blast
    then have "animating (foldl glfmOnAppCmd w cmds)"
      using a by (simp add: android_main_commands_foldl)
    then obtain pre post where e: "cmds = pre @ APP_CMD_GAINED_FOCUS # post"
      and l: "APP_CMD_LOST_FOCUS \<notin> set post" "APP_CMD_TERM_WINDOW \<notin> set post"
      using held by blast
    have "APP_CMD_DESTROY \<notin> set post" using d e by simp
    then show ?thesis using e l by blast
  qed
  show ?thesis using held main by blast
qed

theorem animating_only_if_focus_held_witness:
  "\<not> animating startData
   \<and> animating (foldl glfmOnAppCmd startData
        [APP_CMD_INIT_WINDOW, APP_CMD_GAINED_FOCUS, APP_CMD_LOW_MEMORY])
   \<and> animating (android_main_commands startData
        [APP_CMD_INIT_WINDOW, APP_CMD_GAINED_FOCUS, APP_CMD_LOW_MEMORY])
   \<and> APP_CMD_GAINED_FOCUS \<in> set [APP_CMD_INIT_WINDOW, APP_CMD_GAINED_FOCUS, APP_CMD_LOW_MEMORY]
   \<and> \<not> animating (foldl glfmOnAppCmd startData
        [APP_CMD_INIT_WINDOW, APP_CMD_GAINED_FOCUS, APP_CMD_LOST_FOCUS])
   \<and> \<not> animating (android_main_commands startData
        [APP_CMD_INIT_WINDOW, APP_CMD_GAINED_FOCUS, APP_CMD_DESTROY])"
proof -
  have a: "\<not> animating startData"
    by (simp add: startData_def android_main_init_def)
  have b: "animating (foldl glfmOnAppCmd startData
        [APP_CMD_INIT_WINDOW, APP_CMD_GAINED_FOCUS, APP_CMD_LOW_MEMORY])"
    by (simp add: onAppCmd_animating)
  have c: "animating (android_main_commands startData
        [APP_CMD_INIT_WINDOW, APP_CMD_GAINED_FOCUS, APP_CMD_LOW_MEMORY])"
    by (simp add: onAppCmd_animating)
  have "\<exists>pre post. [APP_CMD_INIT_WINDOW, APP_CMD_GAINED_FOCUS, APP_CMD_LOW_MEMORY]
          = pre @ APP_CMD_GAINED_FOCUS # post
        \<and> APP_CMD_LOST_FOCUS \<notin> set post \<and> APP_CMD_TERM_WINDOW \<notin> set post
        \<and> APP_CMD_DESTROY \<notin> set post"
    using animating_only_if_focus_held[OF a,
        of "[APP_CMD_INIT_WINDOW, APP_CMD_GAINED_FOCUS, APP_CMD_LOW_MEMORY]"] c
    by blast
  then have d: "APP_CMD_GAINED_FOCUS
      \<in> set [APP_CMD_INIT_WINDOW, APP_CMD_GAINED_FOCUS, APP_CMD_LOW_MEMORY]"
    by simp
  have e: "\<not> (\<exists>pre post. [APP_CMD_INIT_WINDOW, APP_CMD_GAINED_FOCUS, APP_CMD_LOST_FOCUS]
          = pre @ APP_CMD_GAINED_FOCUS # post
        \<and> APP_CMD_LOST_FOCUS \<notin> set post \<and> APP_CMD_TERM_WINDOW \<notin> set post)"
    by (auto simp: Cons_eq_append_conv append_eq_Cons_conv)
  have f: "\<not> (\<exists>pre post. [APP_CMD_INIT_WINDOW, APP_CMD_GAINED_FOCUS, APP_CMD_DESTROY]
          = pre @ APP_CMD_GAINED_FOCUS # post
        \<and> APP_CMD_LOST_FOCUS \<notin> set post \<and> APP_CMD_TERM_WINDOW \<notin> set post
        \<and> APP_CMD_DESTROY \<notin> set post)"
    by (auto simp: Cons_eq_append_conv append_eq_Cons_conv)
  have g: "\<not> animating (foldl glfmOnAppCmd startData
        [APP_CMD_INIT_WINDOW, APP_CMD_GAINED_FOCUS, APP_CMD_LOST_FOCUS])"
    using animating_only_if_focus_held[OF a,
        of "[APP_CMD_INIT_WINDOW, APP_CMD_GAINED_FOCUS, APP_CMD_LOST_FOCUS]"] e
    by blast
  have h: "\<not> animating (android_main_commands startData
        [APP_CMD_INIT_WINDOW, APP_CMD_GAINED_FOCUS, APP_CMD_DESTROY])"
    using animating_only_if_focus_held[OF a,
        of "[APP_CMD_INIT_WINDOW, APP_CMD_GAINED_FOCUS, APP_CMD_DESTROY]"] f
    by blast
  show ?thesis using a b c d g h by blast
qed

text \<open>
  The claim as it stands, that the animating state is reached only after window-init, fails
  on the start-up state with the one command gained-focus.
\<close>

theorem animating_without_window_init:
  "\<not> (animating (foldl glfmOnAppCmd startData [APP_CMD_GAINED_FOCUS])
        \<longrightarrow> APP_CMD_INIT_WINDOW \<in> set [APP_CMD_GAINED_FOCUS])
   \<and> \<not> (animating (android_main_commands startData [APP_CMD_GAINED_FOCUS])
        \<longrightarrow> APP_CMD_INIT_WINDOW \<in> set [APP_CMD_GAINED_FOCUS])"
  by simp

text \<open>
  C4. For every motion event, the touch callback is invoked only with touch identifiers in
  \<open>[0, maxTouches)\<close>, where \<open>maxTouches\<close> is 5 with multitouch enabled and 1 otherwise:
  the callbacks made are exactly \<open>deliveredTouches\<close>, one per pointer of the event whose
  identifier is in range, in pointer order, and the other pointers are dropped. With
  multitouch disabled only identifier 0 is delivered.
\<close>

theorem touch_identifiers_bounded:
  "calls (snd (glfmOnInputEvent w (MotionEvent ev))) = calls w @
     (if touchFunc (display w)
      then deliveredTouches (if multitouchEnabled w then 5 else 1) ev else [])
   \<and> (\<forall>n ph x y. TouchCall n ph x y \<in> set (deliveredTouches (if multitouchEnabled w then 5 else 1) ev)
        \<longrightarrow> 0 \<le> n \<and> n < (if multitouchEnabled w then 5 else 1))
   \<and> (\<not> multitouchEnabled w \<longrightarrow>
        (\<forall>n ph x y. TouchCall n ph x y \<in> set (deliveredTouches 1 ev) \<longrightarrow> n = 0))"
proof (intro conjI allI impI)
  show "calls (snd (glfmOnInputEvent w (MotionEvent ev))) = calls w @
     (if touchFunc (display w)
      then deliveredTouches (if multitouchEnabled w then 5 else 1) ev else [])"
    by (simp add: motionEventTouch_calls MAX_SIMULTANEOUS_TOUCHES_def)
next
  fix n ph x y
  assume "TouchCall n ph x y \<in> set (deliveredTouches (if multitouchEnabled w then 5 else 1) ev)"
  then show "0 \<le> n" "n < (if multitouchEnabled w then 5 else 1)"
    using deliveredTouches_range by blast+
next
  fix n ph x y
  assume "TouchCall n ph x y \<in> set (deliveredTouches 1 ev)"
  then have "0 \<le> n \<and> n < 1" by (rule deliveredTouches_range)
  then show "n = 0" by simp
qed

theorem touch_identifiers_bounded_witness:
  "touchFunc (display startData) \<and> \<not> multitouchEnabled startData
   \<and> calls (snd (glfmOnInputEvent startData (MotionEvent threePointerMove)))
       = [TouchCall 0 GLFMTouchPhaseMoved 10 20]
   \<and> calls (snd (glfmOnInputEvent (startData\<lparr>multitouchEnabled := True\<rparr>)
        (MotionEvent threePointerMove)))
       = [TouchCall 0 GLFMTouchPhaseMoved 10 20, TouchCall 3 GLFMTouchPhaseMoved 10 20]
   \<and> TouchCall 3 GLFMTouchPhaseMoved 10 20 \<in> set (deliveredTouches 5 threePointerMove)
   \<and> (0 :: int) \<le> 3 \<and> (3 :: int) < 5
   \<and> TouchCall 7 GLFMTouchPhaseMoved 10 20 \<notin> set (deliveredTouches 5 threePointerMove)"
proof -
  have d: "deliveredTouches 1 threePointerMove = [TouchCall 0 GLFMTouchPhaseMoved 10 20]"
    "deliveredTouches 5 threePointerMove =
      [TouchCall 0 GLFMTouchPhaseMoved 10 20, TouchCall 3 GLFMTouchPhaseMoved 10 20]"
    by code_simp+
  have s: "touchFunc (display startData)" "\<not> multitouchEnabled startData" "calls startData = []"
    by (simp_all add: startData_def android_main_init_def plainDisplay_def)
  have m: "TouchCall 3 GLFMTouchPhaseMoved 10 20 \<in> set (deliveredTouches 5 threePointerMove)"
    "TouchCall 7 GLFMTouchPhaseMoved 10 20 \<notin> set (deliveredTouches 5 threePointerMove)"
    by (simp_all add: d)
  have r: "(0 :: int) \<le> 3 \<and> (3 :: int) < 5"
    using touch_identifiers_bounded[of "startData\<lparr>multitouchEnabled := True\<rparr>" threePointerMove] m
    by simp
  show ?thesis
    using touch_identifiers_bounded[of startData threePointerMove]
      touch_identifiers_bounded[of "startData\<lparr>multitouchEnabled := True\<rparr>" threePointerMove]
      m r
    by (simp add: d s)
qed

text \<open>
  C5, as amended. The frames that observe a live surface size different from the stored
  size are counted from start-up and from each resize callback: the resize callback is not
  fired by a frame until 5 such frames have elapsed since then, or a content-rect-changed
  command arrives, which forces an immediate update when the sizes differ, whichever comes
  first; when the callback fires, the stored width and height become the live size.

  The count is kept in \<open>resizeEventWaitFrames\<close>. The statement has four parts. The counter
  is at \<open>RESIZE_EVENT_MAX_WAIT_FRAMES\<close> at start-up. From a state with the counter there,
  any number of calls of the frame-drawing routine of which at most five observe a
  difference fire no resize callback. A call of the routine with a current context that
  observes the live size \<open>(lw, lh)\<close> fires the resize callback exactly when that size
  differs from the stored one and the counter has run out; it then stores the live size and
  sets the counter to \<open>RESIZE_EVENT_MAX_WAIT_FRAMES\<close>, and otherwise counts the frame when
  the sizes differ. A content-rect-changed command fires the callback whenever the live
  size differs, whatever the counter, then sets the counter to
  \<open>RESIZE_EVENT_MAX_WAIT_FRAMES\<close>, and leaves the live size stored.
\<close>

theorem resize_debounced:
  "resizeEventWaitFrames (android_main_init d sc orient) = RESIZE_EVENT_MAX_WAIT_FRAMES
   \<and> (resizeEventWaitFrames w = RESIZE_EVENT_MAX_WAIT_FRAMES \<and> changedFrames n w \<le> 5 \<longrightarrow>
      resizedCalls (calls ((glfmDrawFrame ^^ n) w)) = resizedCalls (calls w))
   \<and> (eglContextCurrent w \<and> env w = lw # lh # rest \<longrightarrow>
      resizedCalls (calls (glfmDrawFrame w)) =
        resizedCalls (calls w) @
          (if (lw \<noteq> width w \<or> lh \<noteq> height w) \<and> resizeEventWaitFrames w \<le> 0
              \<and> surfaceResizedFunc (display w)
           then [(lw, lh)] else [])
      \<and> resizeEventWaitFrames (glfmDrawFrame w) =
          (if lw \<noteq> width w \<or> lh \<noteq> height w
           then (if resizeEventWaitFrames w \<le> 0 then RESIZE_EVENT_MAX_WAIT_FRAMES
                 else resizeEventWaitFrames w - 1)
           else resizeEventWaitFrames w)
      \<and> width (glfmDrawFrame w) =
          (if (lw \<noteq> width w \<or> lh \<noteq> height w) \<and> resizeEventWaitFrames w \<le> 0
           then lw else width w)
      \<and> height (glfmDrawFrame w) =
          (if (lw \<noteq> width w \<or> lh \<noteq> height w) \<and> resizeEventWaitFrames w \<le> 0
           then lh else height w))
   \<and> (env w = lw # lh # rest \<longrightarrow>
      resizedCalls (calls (glfmOnAppCmd w APP_CMD_CONTENT_RECT_CHANGED)) =
        resizedCalls (calls w) @
          (if (lw \<noteq> width w \<or> lh \<noteq> height w) \<and> surfaceResizedFunc (display w)
           then [(lw, lh)] else [])
      \<and> resizeEventWaitFrames (glfmOnAppCmd w APP_CMD_CONTENT_RECT_CHANGED) =
          (if lw \<noteq> width w \<or> lh \<noteq> height w then RESIZE_EVENT_MAX_WAIT_FRAMES
           else resizeEventWaitFrames w)
      \<and> width (glfmOnAppCmd w APP_CMD_CONTENT_RECT_CHANGED) = lw
      \<and> height (glfmOnAppCmd w APP_CMD_CONTENT_RECT_CHANGED) = lh)"
proof -
  have start: "resizeEventWaitFrames (android_main_init d sc orient) = RESIZE_EVENT_MAX_WAIT_FRAMES"
    by (simp add: android_main_init_def)
  have frames: "resizedCalls (calls ((glfmDrawFrame ^^ n) w)) = resizedCalls (calls w)"
    if "resizeEventWaitFrames w = RESIZE_EVENT_MAX_WAIT_FRAMES \<and> changedFrames n w \<le> 5"
    using that frames_counted[of n w] by (simp add: RESIZE_EVENT_MAX_WAIT_FRAMES_def)
  have frame: "resizedCalls (calls (glfmDrawFrame w)) =
        resizedCalls (calls w) @
          (if (lw \<noteq> width w \<or> lh \<noteq> height w) \<and> resizeEventWaitFrames w \<le> 0
              \<and> surfaceResizedFunc (display w)
           then [(lw, lh)] else [])
      \<and> resizeEventWaitFrames (glfmDrawFrame w) =
          (if lw \<noteq> width w \<or> lh \<noteq> height w
           then (if resizeEventWaitFrames w \<le> 0 then RESIZE_EVENT_MAX_WAIT_FRAMES
                 else resizeEventWaitFrames w - 1)
           else resizeEventWaitFrames w)
      \<and> width (glfmDrawFrame w) =
          (if (lw \<noteq> width w \<or> lh \<noteq> height w) \<and> resizeEventWaitFrames w \<le> 0
           then lw else width w)
      \<and> height (glfmDrawFrame w) =
          (if (lw \<noteq> width w \<or> lh \<noteq> height w) \<and> resizeEventWaitFrames w \<le> 0
           then lh else height w)"
    if "eglContextCurrent w \<and> env w = lw # lh # rest"
    using that by (simp add: drawFrame_resize updateSize_step[of w lw lh rest False])
  have rect: "resizedCalls (calls (glfmOnAppCmd w APP_CMD_CONTENT_RECT_CHANGED)) =
        resizedCalls (calls w) @
          (if (lw \<noteq> width w \<or> lh \<noteq> height w) \<and> surfaceResizedFunc (display w)
           then [(lw, lh)] else [])
      \<and> resizeEventWaitFrames (glfmOnAppCmd w APP_CMD_CONTENT_RECT_CHANGED) =
          (if lw \<noteq> width w \<or> lh \<noteq> height w then RESIZE_EVENT_MAX_WAIT_FRAMES
           else resizeEventWaitFrames w)
      \<and> width (glfmOnAppCmd w APP_CMD_CONTENT_RECT_CHANGED) = lw
      \<and> height (glfmOnAppCmd w APP_CMD_CONTENT_RECT_CHANGED) = lh"
    if a: "env w = lw # lh # rest"
  proof -
    let ?w1 = "w\<lparr>refreshRequested := True, contentRect := pendingContentRect w\<rparr>"
    have e: "env ?w1 = lw # lh # rest" using a by simp
    show ?thesis by (simp add: Let_def updateSize_step[OF e, of True])
  qed
  show ?thesis using start frames frame rect by blast
qed

lemma resizingData_after_five_frames:
  "eglContextCurrent ((glfmDrawFrame ^^ 5) resizingData)
   \<and> env ((glfmDrawFrame ^^ 5) resizingData) = [200, 100]
   \<and> width ((glfmDrawFrame ^^ 5) resizingData) = 100
   \<and> height ((glfmDrawFrame ^^ 5) resizingData) = 100
   \<and> resizeEventWaitFrames ((glfmDrawFrame ^^ 5) resizingData) = 0
   \<and> surfaceResizedFunc (display ((glfmDrawFrame ^^ 5) resizingData))
   \<and> calls ((glfmDrawFrame ^^ 5) resizingData)
       = [SurfaceRefreshCall, RenderCall, RenderCall, RenderCall, RenderCall, RenderCall]"
  by code_simp

lemma resizingData_fields:
  "resizeEventWaitFrames resizingData = RESIZE_EVENT_MAX_WAIT_FRAMES"
  "calls resizingData = []"
  "env resizingData = 200 # 100 # [200, 100, 200, 100, 200, 100, 200, 100, 200, 100]"
  "width resizingData = 100"
  "surfaceResizedFunc (display resizingData)"
  by (simp_all add: resizingData_def startData_def android_main_init_def plainDisplay_def)

lemma resizingData_changedFrames: "changedFrames 5 resizingData = 5"
  by code_simp

theorem resize_debounced_witness:
  "resizeEventWaitFrames resizingData = RESIZE_EVENT_MAX_WAIT_FRAMES
   \<and> changedFrames 5 resizingData = 5
   \<and> resizedCalls (calls ((glfmDrawFrame ^^ 5) resizingData)) = []
   \<and> resizedCalls (calls (glfmDrawFrame ((glfmDrawFrame ^^ 5) resizingData))) = [(200, 100)]
   \<and> width (glfmDrawFrame ((glfmDrawFrame ^^ 5) resizingData)) = 200
   \<and> resizeEventWaitFrames (glfmDrawFrame ((glfmDrawFrame ^^ 5) resizingData))
       = RESIZE_EVENT_MAX_WAIT_FRAMES
   \<and> resizedCalls (calls (glfmOnAppCmd resizingData APP_CMD_CONTENT_RECT_CHANGED)) = [(200, 100)]
   \<and> width (glfmOnAppCmd resizingData APP_CMD_CONTENT_RECT_CHANGED) = 200
   \<and> resizeEventWaitFrames (glfmOnAppCmd resizingData APP_CMD_CONTENT_RECT_CHANGED)
       = RESIZE_EVENT_MAX_WAIT_FRAMES"
proof -
  let ?v = "(glfmDrawFrame ^^ 5) resizingData"
  have a: "resizedCalls (calls ?v) = []"
    using resize_debounced[where w = resizingData and n = 5]
    by (simp add: resizingData_fields resizingData_changedFrames)
  have b: "resizedCalls (calls (glfmDrawFrame ?v)) = [(200, 100)]
      \<and> width (glfmDrawFrame ?v) = 200
      \<and> resizeEventWaitFrames (glfmDrawFrame ?v) = RESIZE_EVENT_MAX_WAIT_FRAMES"
    using resize_debounced[where w = ?v and lw = 200 and lh = 100 and rest = "[]"]
      resizingData_after_five_frames a
    by simp
  have c: "resizedCalls (calls (glfmOnAppCmd resizingData APP_CMD_CONTENT_RECT_CHANGED)) = [(200, 100)]
      \<and> width (glfmOnAppCmd resizingData APP_CMD_CONTENT_RECT_CHANGED) = 200
      \<and> resizeEventWaitFrames (glfmOnAppCmd resizingData APP_CMD_CONTENT_RECT_CHANGED)
          = RESIZE_EVENT_MAX_WAIT_FRAMES"
    using resize_debounced[where w = resizingData and lw = 200 and lh = 100
        and rest = "[200, 100, 200, 100, 200, 100, 200, 100, 200, 100]"]
    by (simp add: resizingData_fields)
  show ?thesis using a b c by (simp add: resizingData_fields resizingData_changedFrames)
qed

text \<open>
  The claim as it stands counts the frames from the frame that first observes a size. On a
  surface stored as 100 by 100, five frames observe 200 by 100 and fire nothing, and the
  sixth observes the live size 100 by 100, which is the stored one. The seventh frame is
  the first to observe 300 by 100: it fires the resize callback at once, although no frame
  has elapsed since and no content-rect-changed command has arrived.
\<close>

theorem resize_in_first_observing_frame:
  "resizedCalls (calls ((glfmDrawFrame ^^ 5) transientData)) = []
   \<and> liveSize ((glfmDrawFrame ^^ 5) transientData) = (100, 100)
   \<and> width ((glfmDrawFrame ^^ 5) transientData) = 100
   \<and> height ((glfmDrawFrame ^^ 5) transientData) = 100
   \<and> resizedCalls (calls ((glfmDrawFrame ^^ 6) transientData)) = []
   \<and> liveSize ((glfmDrawFrame ^^ 6) transientData) = (300, 100)
   \<and> width ((glfmDrawFrame ^^ 6) transientData) = 100
   \<and> height ((glfmDrawFrame ^^ 6) transientData) = 100
   \<and> resizedCalls (calls ((glfmDrawFrame ^^ 7) transientData)) = [(300, 100)]"
  by code_simp

text \<open>
  C6. For every Unicode code point \<open>u\<close> from U+0020 on that the lookup derives for a key-down
  or multiple action, the character callback receives the standard UTF-8 encoding of \<open>u\<close>,
  once for key-down and once per repeat count for a multiple action; U+1F600 is encoded
  as F0 9F 98 80.

  The first part compares the string the callback is handed with the standard's table
  (\<open>utf8_standard\<close>: one to four bytes; for the surrogates, which the standard leaves out,
  the three-byte row of the table). The last part counts the character callbacks of
  \<open>_glfmOnInputEvent\<close> on a key event, \<open>u\<close> being what the lookup answers after the key
  callbacks have run.
\<close>

theorem char_callback_utf8:
  fixes u :: "32 word"
  shows "(0x20 \<le> u \<and> u < 0x110000 \<longrightarrow>
            map unat (cString (glfmUnicodeToUTF8 u)) = utf8_standard (unat u))
    \<and> cString (glfmUnicodeToUTF8 0x1F600) = [0xF0, 0x9F, 0x98, 0x80]
    \<and> (charFunc (display w) \<and> fst (glfmGetUnicodeChar (snd (keyEventKey w ev))) = u \<and> 0x20 \<le> u \<longrightarrow>
         charCalls (calls (snd (glfmOnInputEvent w (KeyEvent ev)))) = charCalls (calls w) @
           (if keyAction ev = AKEY_EVENT_ACTION_DOWN then [cString (glfmUnicodeToUTF8 u)]
            else if keyAction ev = AKEY_EVENT_ACTION_MULTIPLE
            then replicate (nat (repeatCount ev)) (cString (glfmUnicodeToUTF8 u))
            else []))"
proof (intro conjI impI)
  assume "0x20 \<le> u \<and> u < 0x110000"
  then show "map unat (cString (glfmUnicodeToUTF8 u)) = utf8_standard (unat u)"
    using cString_utf8 by blast
next
  show "cString (glfmUnicodeToUTF8 0x1F600) = [0xF0, 0x9F, 0x98, 0x80]"
    by (simp add: cString_def glfmUnicodeToUTF8_def)
next
  assume a: "charFunc (display w) \<and> fst (glfmGetUnicodeChar (snd (keyEventKey w ev))) = u \<and> 0x20 \<le> u"
  then show "charCalls (calls (snd (glfmOnInputEvent w (KeyEvent ev)))) = charCalls (calls w) @
           (if keyAction ev = AKEY_EVENT_ACTION_DOWN then [cString (glfmUnicodeToUTF8 u)]
            else if keyAction ev = AKEY_EVENT_ACTION_MULTIPLE
            then replicate (nat (repeatCount ev)) (cString (glfmUnicodeToUTF8 u))
            else [])"
    by (simp add: case_prod_beta keyEventChar_calls)
qed

lemma emojiKeyData_lookup:
  "charFunc (display emojiKeyData)
   \<and> fst (glfmGetUnicodeChar (snd (keyEventKey emojiKeyData emojiKeyDown))) = 0x1F600
   \<and> keyAction emojiKeyDown = AKEY_EVENT_ACTION_DOWN
   \<and> calls emojiKeyData = []"
  by code_simp

theorem char_callback_utf8_witness:
  "(0x20 :: 32 word) \<le> 0x1F600 \<and> (0x1F600 :: 32 word) < 0x110000
   \<and> map unat (cString (glfmUnicodeToUTF8 0x1F600)) = [0xF0, 0x9F, 0x98, 0x80]
   \<and> charCalls (calls (snd (glfmOnInputEvent emojiKeyData (KeyEvent emojiKeyDown))))
       = [[0xF0, 0x9F, 0x98, 0x80]]"
proof -
  have r: "(0x20 :: 32 word) \<le> 0x1F600" "(0x1F600 :: 32 word) < 0x110000" by simp_all
  have s: "utf8_standard (unat (0x1F600 :: 32 word)) = [0xF0, 0x9F, 0x98, 0x80]"
    by (simp add: utf8_standard_def)
  show ?thesis
    using char_callback_utf8[of "0x1F600" emojiKeyData emojiKeyDown] emojiKeyData_lookup r s
    by simp
qed

text \<open>
  C7, as amended. Given the window rectangle and the visible-display-frame rectangle,
  keyboard visibility is computed from the four left, right, top and bottom difference
  bands, whose widths, heights and areas fit a 32-bit \<open>int\<close>: a band is eligible when its
  width and its height are both at least the threshold of 100 density-independent units
  (in pixels, \<open>minimumKeyboardSize\<close>); the keyboard is visible exactly when an eligible band
  of positive area exists (for a threshold of at least one pixel: exactly when an eligible
  band exists), the frame is then an eligible band of largest area, and otherwise the zero
  rectangle; the keyboard-visibility callback is invoked only when the visibility or the
  frame changes. For the window \<open>(0, 0, 1000, 2000)\<close> and the visible frame
  \<open>(0, 0, 1000, 1500)\<close>, with a threshold of at most 500 pixels, the keyboard is visible
  with frame \<open>(0, 1500, 1000, 2000)\<close>.
\<close>

theorem keyboard_visibility_largest_band:
  fixes w :: GLFMPlatformData
  defines "w' \<equiv> glfmUpdateKeyboardVisibility w"
    and "bands \<equiv> keyboardBands w"
    and "m \<equiv> minimumKeyboardSize w"
  shows "((\<forall>r \<in> set bands. bandFits r) \<longrightarrow>
        (keyboardVisible w' \<longleftrightarrow> (\<exists>r \<in> set bands. bandEligible m r \<and> 0 < bandArea r))
      \<and> (1 \<le> m \<longrightarrow> (keyboardVisible w' \<longleftrightarrow> (\<exists>r \<in> set bands. bandEligible m r)))
      \<and> (keyboardVisible w' \<longrightarrow>
            keyboardFrame w' \<in> set bands \<and> bandEligible m (keyboardFrame w')
            \<and> (\<forall>r \<in> set bands. bandEligible m r \<longrightarrow> bandArea r \<le> bandArea (keyboardFrame w'))))
    \<and> (\<not> keyboardVisible w' \<longrightarrow> keyboardFrame w' = zeroRect)
    \<and> calls w' = calls w @
          (if (keyboardVisible w' \<noteq> keyboardVisible w \<or> keyboardFrame w' \<noteq> keyboardFrame w)
               \<and> keyboardVisibilityChangedFunc (display w)
           then [KeyboardVisibilityChangedCall (keyboardVisible w')
                   (left (keyboardFrame w')) (top (keyboardFrame w'))
                   (int32 (right (keyboardFrame w') - left (keyboardFrame w')))
                   (int32 (bottom (keyboardFrame w') - top (keyboardFrame w')))]
           else [])
    \<and> (contentRect w = \<lparr>left = 0, top = 0, right = 1000, bottom = 2000\<rparr>
         \<and> fst (glfmGetWindowVisibleDisplayFrame w (contentRect w))
             = \<lparr>left = 0, top = 0, right = 1000, bottom = 1500\<rparr>
         \<and> m \<le> 500 \<longrightarrow>
        keyboardVisible w' \<and> keyboardFrame w' = \<lparr>left = 0, top = 1500, right = 1000, bottom = 2000\<rparr>)"
proof -
  obtain li la where fold: "foldl (largestRound m bands) (0, -1) [0..<4] = (li, la)"
    by (cases "foldl (largestRound m bands) (0, -1) [0..<4]")
  note res = keyboard_result[OF fold[unfolded m_def bands_def], folded w'_def bands_def]
  have nth: "set bands = (\<lambda>i. bands ! i) ` set [0..<4]"
    unfolding bands_def keyboardBands_def by (rule bands_nth)
  have fits: "(keyboardVisible w' \<longleftrightarrow> (\<exists>r \<in> set bands. bandEligible m r \<and> 0 < bandArea r))
      \<and> (1 \<le> m \<longrightarrow> (keyboardVisible w' \<longleftrightarrow> (\<exists>r \<in> set bands. bandEligible m r)))
      \<and> (keyboardVisible w' \<longrightarrow>
            keyboardFrame w' \<in> set bands \<and> bandEligible m (keyboardFrame w')
            \<and> (\<forall>r \<in> set bands. bandEligible m r \<longrightarrow> bandArea r \<le> bandArea (keyboardFrame w')))"
    if f: "\<forall>r \<in> set bands. bandFits r"
  proof -
    have f': "\<forall>i \<in> set [0..<4]. bandFits (bands ! i)" using f nth by blast
    from largestRound_fold[OF f' fold]
    have inv: "(li, la) = (0, -1)
        \<or> (li \<in> set [0..<4] \<and> bandEligible m (bands ! li) \<and> la = bandArea (bands ! li))"
      and mx: "\<forall>i \<in> set [0..<4]. bandEligible m (bands ! i) \<longrightarrow> bandArea (bands ! i) \<le> la"
      by simp_all
    have mx': "\<forall>r \<in> set bands. bandEligible m r \<longrightarrow> bandArea r \<le> la"
      using mx nth by auto
    have sel: "0 < la \<Longrightarrow>
        bands ! li \<in> set bands \<and> bandEligible m (bands ! li) \<and> la = bandArea (bands ! li)"
      using inv nth by auto
    have pos: "bandEligible m r \<Longrightarrow> 1 \<le> m \<Longrightarrow> 0 < bandArea r" for r
      by (simp add: bandEligible_def bandArea_def)
    have v1: "keyboardVisible w' \<longleftrightarrow> (\<exists>r \<in> set bands. bandEligible m r \<and> 0 < bandArea r)"
    proof
      assume "keyboardVisible w'"
      then have "0 < la" by (simp add: res)
      with sel show "\<exists>r \<in> set bands. bandEligible m r \<and> 0 < bandArea r" by auto
    next
      assume "\<exists>r \<in> set bands. bandEligible m r \<and> 0 < bandArea r"
      then obtain r where "r \<in> set bands" "bandEligible m r" "0 < bandArea r" by blast
      with mx' have "0 < la" by force
      then show "keyboardVisible w'" by (simp add: res)
    qed
    have v2: "1 \<le> m \<longrightarrow> (keyboardVisible w' \<longleftrightarrow> (\<exists>r \<in> set bands. bandEligible m r))"
      using v1 pos by blast
    have v3: "keyboardVisible w' \<longrightarrow>
            keyboardFrame w' \<in> set bands \<and> bandEligible m (keyboardFrame w')
            \<and> (\<forall>r \<in> set bands. bandEligible m r \<longrightarrow> bandArea r \<le> bandArea (keyboardFrame w'))"
      using sel mx' by (auto simp: res)
    show ?thesis using v1 v2 v3 by blast
  qed
  have v4: "\<not> keyboardVisible w' \<longrightarrow> keyboardFrame w' = zeroRect"
    by (simp add: res)
  have v6: "keyboardVisible w' \<and> keyboardFrame w' = \<lparr>left = 0, top = 1500, right = 1000, bottom = 2000\<rparr>"
    if a: "contentRect w = \<lparr>left = 0, top = 0, right = 1000, bottom = 2000\<rparr>
         \<and> fst (glfmGetWindowVisibleDisplayFrame w (contentRect w))
             = \<lparr>left = 0, top = 0, right = 1000, bottom = 1500\<rparr>
         \<and> m \<le> 500"
  proof -
    have b: "bands = [\<lparr>left = 0, top = 0, right = 0, bottom = 2000\<rparr>,
                     \<lparr>left = 1000, top = 0, right = 1000, bottom = 2000\<rparr>,
                     \<lparr>left = 0, top = 0, right = 1000, bottom = 0\<rparr>,
                     \<lparr>left = 0, top = 1500, right = 1000, bottom = 2000\<rparr>]"
    proof -
      have "bands = nonVisibleRects \<lparr>left = 0, top = 0, right = 1000, bottom = 2000\<rparr>
                      \<lparr>left = 0, top = 0, right = 1000, bottom = 1500\<rparr>"
        unfolding bands_def keyboardBands_def using a by metis
      then show ?thesis by (simp add: nonVisibleRects_def)
    qed
    have f: "\<forall>r \<in> set bands. bandFits r" by (simp add: b bandFits_def)
    have e: "bandEligible m \<lparr>left = 0, top = 1500, right = 1000, bottom = 2000\<rparr>
        \<and> 0 < bandArea \<lparr>left = 0, top = 1500, right = 1000, bottom = 2000\<rparr>"
      using a by (simp add: bandEligible_def bandArea_def)
    then have vis: "keyboardVisible w'" using fits[OF f] b by auto
    with fits[OF f] have "keyboardFrame w' \<in> set bands"
      "bandArea \<lparr>left = 0, top = 1500, right = 1000, bottom = 2000\<rparr> \<le> bandArea (keyboardFrame w')"
      using e b by auto
    then have "keyboardFrame w' = \<lparr>left = 0, top = 1500, right = 1000, bottom = 2000\<rparr>"
      by (auto simp: b bandArea_def)
    with vis show ?thesis by simp
  qed
  show ?thesis using fits v4 res(3) v6 by blast
qed

lemma keyboardData_no_band:
  "\<not> (\<exists>r \<in> set (keyboardBands (keyboardData 2000)). bandEligible 100 r \<and> 0 < bandArea r)"
  by (simp add: keyboardData_bands bandEligible_def bandArea_def)

lemma keyboardData_bandFits:
  "\<forall>r \<in> set (keyboardBands (keyboardData 1500)). bandFits r"
  "\<forall>r \<in> set (keyboardBands (keyboardData 2000)). bandFits r"
  by (simp_all add: keyboardData_bands bandFits_def)

theorem keyboard_visibility_largest_band_witness:
  "list_all bandFits (keyboardBands (keyboardData 1500))
   \<and> minimumKeyboardSize (keyboardData 1500) = 100
   \<and> keyboardVisible (glfmUpdateKeyboardVisibility (keyboardData 1500))
   \<and> keyboardFrame (glfmUpdateKeyboardVisibility (keyboardData 1500))
       = \<lparr>left = 0, top = 1500, right = 1000, bottom = 2000\<rparr>
   \<and> calls (glfmUpdateKeyboardVisibility (keyboardData 1500))
       = [KeyboardVisibilityChangedCall True 0 1500 1000 500]
   \<and> list_all bandFits (keyboardBands (keyboardData 2000))
   \<and> \<not> keyboardVisible (glfmUpdateKeyboardVisibility (keyboardData 2000))
   \<and> keyboardFrame (glfmUpdateKeyboardVisibility (keyboardData 2000)) = zeroRect
   \<and> calls (glfmUpdateKeyboardVisibility (keyboardData 2000)) = []"
proof -
  let ?w = "keyboardData 1500"
  let ?w' = "glfmUpdateKeyboardVisibility ?w"
  have f: "\<forall>r \<in> set (keyboardBands ?w). bandFits r"
    by (simp add: keyboardData_bandFits)
  have h: "contentRect ?w = \<lparr>left = 0, top = 0, right = 1000, bottom = 2000\<rparr>
       \<and> fst (glfmGetWindowVisibleDisplayFrame ?w (contentRect ?w))
           = \<lparr>left = 0, top = 0, right = 1000, bottom = 1500\<rparr>
       \<and> minimumKeyboardSize ?w \<le> 500"
    by (simp add: keyboardData_visibleFrame keyboardData_fields)
  from keyboard_visibility_largest_band[of ?w] h
  have r: "keyboardVisible ?w'"
    "keyboardFrame ?w' = \<lparr>left = 0, top = 1500, right = 1000, bottom = 2000\<rparr>"
    by blast+
  from keyboard_visibility_largest_band[of ?w]
  have "calls ?w' = calls ?w @
          (if (keyboardVisible ?w' \<noteq> keyboardVisible ?w \<or> keyboardFrame ?w' \<noteq> keyboardFrame ?w)
               \<and> keyboardVisibilityChangedFunc (display ?w)
           then [KeyboardVisibilityChangedCall (keyboardVisible ?w')
                   (left (keyboardFrame ?w')) (top (keyboardFrame ?w'))
                   (int32 (right (keyboardFrame ?w') - left (keyboardFrame ?w')))
                   (int32 (bottom (keyboardFrame ?w') - top (keyboardFrame ?w')))]
           else [])"
    by blast
  then have c: "calls ?w' = [KeyboardVisibilityChangedCall True 0 1500 1000 500]"
    using r by (simp add: keyboardData_fields int32_def)
  let ?v = "keyboardData 2000"
  let ?v' = "glfmUpdateKeyboardVisibility ?v"
  have g: "\<forall>r \<in> set (keyboardBands ?v). bandFits r"
    by (simp add: keyboardData_bandFits)
  from keyboard_visibility_largest_band[of ?v] g keyboardData_no_band
  have n: "\<not> keyboardVisible ?v'" "keyboardFrame ?v' = zeroRect"
    by (simp_all add: keyboardData_fields)
  from keyboard_visibility_largest_band[of ?v]
  have "calls ?v' = calls ?v @
          (if (keyboardVisible ?v' \<noteq> keyboardVisible ?v \<or> keyboardFrame ?v' \<noteq> keyboardFrame ?v)
               \<and> keyboardVisibilityChangedFunc (display ?v)
           then [KeyboardVisibilityChangedCall (keyboardVisible ?v')
                   (left (keyboardFrame ?v')) (top (keyboardFrame ?v'))
                   (int32 (right (keyboardFrame ?v') - left (keyboardFrame ?v')))
                   (int32 (bottom (keyboardFrame ?v') - top (keyboardFrame ?v')))]
           else [])"
    by blast
  then have "calls ?v' = []"
    using n by (simp add: keyboardData_fields)
  then show ?thesis using f g r c n by (simp add: list_all_iff keyboardData_fields)
qed

text \<open>
  The claim as it stands asks for a band whose width and height both exceed the threshold,
  gives its example for every threshold, and sets no bound on the bands. With a threshold
  of 100 pixels and a visible frame that ends 100 pixels above the bottom of the window, no
  band exceeds the threshold in both directions, and the keyboard is reported visible. On a
  screen of density 960 the threshold is 600 pixels, and the window and the visible frame
  of the example give no keyboard. With a threshold of 100 pixels, a window of 50000 by
  100000 and a visible frame that ends at 50000, the bottom band exceeds the threshold in
  both directions, its area does not fit a 32-bit \<open>int\<close>, and no keyboard is reported.
\<close>

theorem keyboard_band_at_threshold:
  "keyboardVisible (glfmUpdateKeyboardVisibility (keyboardData 1900))
   \<and> minimumKeyboardSize (keyboardData 1900) = 100
   \<and> \<not> (\<exists>r \<in> set (keyboardBands (keyboardData 1900)).
           100 < right r - left r \<and> 100 < bottom r - top r)
   \<and> contentRect denseKeyboardData = \<lparr>left = 0, top = 0, right = 1000, bottom = 2000\<rparr>
   \<and> fst (glfmGetWindowVisibleDisplayFrame denseKeyboardData (contentRect denseKeyboardData))
       = \<lparr>left = 0, top = 0, right = 1000, bottom = 1500\<rparr>
   \<and> minimumKeyboardSize denseKeyboardData = 600
   \<and> \<not> keyboardVisible (glfmUpdateKeyboardVisibility denseKeyboardData)
   \<and> minimumKeyboardSize hugeKeyboardData = 100
   \<and> \<lparr>left = 0, top = 50000, right = 50000, bottom = 100000\<rparr>
       \<in> set (keyboardBands hugeKeyboardData)
   \<and> \<not> keyboardVisible (glfmUpdateKeyboardVisibility hugeKeyboardData)"
proof -
  have a: "keyboardVisible (glfmUpdateKeyboardVisibility (keyboardData 1900))"
    by (simp add: keyboard_result(1)[OF keyboardData_1900_fold])
  have b: "\<not> (\<exists>r \<in> set (keyboardBands (keyboardData 1900)).
           100 < right r - left r \<and> 100 < bottom r - top r)"
    by (simp add: keyboardData_bands)
  have c: "contentRect denseKeyboardData = \<lparr>left = 0, top = 0, right = 1000, bottom = 2000\<rparr>
      \<and> fst (glfmGetWindowVisibleDisplayFrame denseKeyboardData (contentRect denseKeyboardData))
       = \<lparr>left = 0, top = 0, right = 1000, bottom = 1500\<rparr>"
    by (simp add: denseKeyboardData_def keyboardData_def glfmGetWindowVisibleDisplayFrame_def
        glfmGetDecorView_def envNext_def Let_def)
  have d: "\<not> keyboardVisible (glfmUpdateKeyboardVisibility denseKeyboardData)"
    by (simp add: keyboard_result(1)[OF denseKeyboardData_fold])
  have e: "\<not> keyboardVisible (glfmUpdateKeyboardVisibility hugeKeyboardData)"
    by (simp add: keyboard_result(1)[OF hugeKeyboardData_fold])
  have f: "minimumKeyboardSize (keyboardData 1900) = 100"
    "minimumKeyboardSize denseKeyboardData = 600"
    "minimumKeyboardSize hugeKeyboardData = 100"
    by (simp_all add: keyboardData_fields denseKeyboardData_fields hugeKeyboardData_fields)
  have g: "\<lparr>left = 0, top = 50000, right = 50000, bottom = 100000\<rparr>
       \<in> set (keyboardBands hugeKeyboardData)"
    by (simp add: hugeKeyboardData_fields)
  show ?thesis using a b c d e f g by blast
qed



text \<open>
  C9, as amended. The display refresh rate is asked of the windowing system at every call
  of \<open>_glfmGetRefreshRate\<close>, which the main loop makes in each frame that did not swap
  buffers; nothing is cached. When a step of the query chain fails (a null object or a
  pending Java exception) or the reported rate is not above zero, the function returns the
  default of 60 Hz, and otherwise the rate reported in this call; a returned number is
  always positive.
\<close>

theorem refresh_rate_queried_each_call:
  "(env w = window # e1 # windowManager # e2 # windowDisplay # e3 # e4 # rest
      \<and> envFloat w = rate # frest \<longrightarrow>
    fst (glfmGetRefreshRate w) =
     (if window \<noteq> 0 \<and> e1 = 0 \<and> windowManager \<noteq> 0 \<and> e2 = 0 \<and> windowDisplay \<noteq> 0 \<and> e3 = 0
         \<and> e4 = 0 \<and> \<not> jfloat_le_zero rate
      then rate else JFloat 60))
   \<and> (fst (glfmGetRefreshRate w) = JFloat r \<longrightarrow> 0 < r)"
proof (intro conjI impI)
  assume "env w = window # e1 # windowManager # e2 # windowDisplay # e3 # e4 # rest
      \<and> envFloat w = rate # frest"
  then show "fst (glfmGetRefreshRate w) =
     (if window \<noteq> 0 \<and> e1 = 0 \<and> windowManager \<noteq> 0 \<and> e2 = 0 \<and> windowDisplay \<noteq> 0 \<and> e3 = 0
         \<and> e4 = 0 \<and> \<not> jfloat_le_zero rate
      then rate else JFloat 60)"
    using refreshRate_chain by blast
next
  assume "fst (glfmGetRefreshRate w) = JFloat r"
  then show "0 < r" using refreshRate_value[of w] by auto
qed

theorem refresh_rate_queried_each_call_witness:
  "fst (glfmGetRefreshRate refreshData) = JFloat 90 \<and> (0 :: real) < 90
   \<and> fst (glfmGetRefreshRate (refreshData\<lparr>envFloat := [JFloat (- 1)]\<rparr>)) = JFloat 60
   \<and> fst (glfmGetRefreshRate (refreshData\<lparr>env := [1, 0, 0, 0, 0, 0, 0]\<rparr>)) = JFloat 60"
proof -
  have e: "env refreshData = 1 # 0 # 1 # 0 # 1 # 0 # 0 # [1, 0, 1, 0, 1, 0, 0]"
    "envFloat refreshData = JFloat 90 # [JFloat 120]"
    by (simp_all add: refreshData_def)
  have a: "fst (glfmGetRefreshRate refreshData) = JFloat 90"
    using refresh_rate_queried_each_call[of refreshData 1 0 1 0 1 0 0 "[1, 0, 1, 0, 1, 0, 0]"
        "JFloat 90" "[JFloat 120]"] e
    by simp
  then have p: "(0 :: real) < 90"
    using refresh_rate_queried_each_call[of refreshData _ _ _ _ _ _ _ _ _ _ 90] by blast
  have b: "fst (glfmGetRefreshRate (refreshData\<lparr>envFloat := [JFloat (- 1)]\<rparr>)) = JFloat 60"
    using refresh_rate_queried_each_call[of "refreshData\<lparr>envFloat := [JFloat (- 1)]\<rparr>"
        1 0 1 0 1 0 0 "[1, 0, 1, 0, 1, 0, 0]" "JFloat (- 1)" "[]"] e
    by simp
  have c: "fst (glfmGetRefreshRate (refreshData\<lparr>env := [1, 0, 0, 0, 0, 0, 0]\<rparr>)) = JFloat 60"
    using refresh_rate_queried_each_call[of "refreshData\<lparr>env := [1, 0, 0, 0, 0, 0, 0]\<rparr>"
        1 0 0 0 0 0 0 "[]" "JFloat 90" "[JFloat 120]"] e
    by simp
  show ?thesis using a p b c by simp
qed

text \<open>
  The claim as it stands says that the rate is cached. Two calls in a row, between which
  the display changes its rate from 90 Hz to 120 Hz, return 90 and then 120.
\<close>

theorem refresh_rate_not_cached:
  "fst (glfmGetRefreshRate refreshData) = JFloat 90
   \<and> fst (glfmGetRefreshRate (snd (glfmGetRefreshRate refreshData))) = JFloat 120"
  by code_simp

text \<open>
  C10. Setting the animating flag to the value it has is a no-op: the platform state is
  unchanged, so neither the focus callback nor a sensor subscription is made (the call log
  is part of the state), and setting the flag twice to the same value is the same as
  setting it once.
\<close>

theorem setAnimating_same_value_noop:
  "glfmSetAnimating w (animating w) = w
   \<and> glfmSetAnimating (glfmSetAnimating w a) a = glfmSetAnimating w a"
proof -
  have same: "glfmSetAnimating v (animating v) = v" for v
    by (simp add: glfmSetAnimating_def)
  have "animating (glfmSetAnimating w a) = a" by simp
  then show ?thesis using same[of w] same[of "glfmSetAnimating w a"] by simp
qed

theorem setAnimating_same_value_noop_witness:
  "glfmSetAnimating startData False = startData
   \<and> glfmSetAnimating (glfmSetAnimating startData True) True = glfmSetAnimating startData True"
proof -
  have "animating startData = False"
    by (simp add: startData_def android_main_init_def)
  then show ?thesis
    using setAnimating_same_value_noop[of startData True] by simp
qed

end
